theory Spec2Isabelle
  imports Main
begin

section \<open>Data model\<close>

text \<open>
  The Repository of \<^verbatim>\<open>packages/core/src/state-management/repository.ts\<close> is a
  program over its collaborators (state cache, pin store, anchor request store, dispatcher,
  handlers, state manager, indexing API). The collaborators are not part of the file, so
  they are parameters of the model: a record of functions over a world \<open>'w\<close> that holds
  whatever state they keep. Every call the Repository makes to a collaborator with an
  effect is recorded, with its arguments, in the list of events the program returns.

  Identifiers are compared by value: a StreamID stands for its string form, which is the
  key of the memory cache. Content identifiers are numbers. A commit payload is a number.
\<close>

type_synonym CID = nat

record StreamID =
  typeName :: string
  cid :: CID

record CommitID =
  baseID :: StreamID
  commit :: CID

datatype CommitType = GENESIS | SIGNED | ANCHOR

record LogEntry =
  entry_cid :: CID
  entry_type :: CommitType
  timestamp :: "int option"

text \<open>\<open>metadata.model\<close> is \<open>None\<close> when \<^verbatim>\<open>state?.metadata?.model\<close> is falsy.\<close>

record StreamState =
  stream_type :: nat
  log :: "LogEntry list"
  content :: string
  controllers :: "string list"
  model :: "StreamID option"

text \<open>
  A RunningState is a mutable object shared between the cache and the callers, so the
  model handles it through a reference; \<open>deref\<close> (a collaborator, below) reads the object's
  current fields.
\<close>

type_synonym ref = nat

record RunningState =
  rs_id :: StreamID
  state :: StreamState
  isPinned :: bool
  tip :: CID

datatype SnapshotState = SnapshotState (snapshot_state: StreamState)

record CommitData =
  commit_cid :: CID
  payload :: nat
  disableTimecheck :: bool

record AnchorRequest =
  request_cid :: CID

text \<open>
  A property of a JavaScript options object is absent, present with the value
  \<^verbatim>\<open>undefined\<close>, or present with a value. Object spread copies every present property,
  also one whose value is \<^verbatim>\<open>undefined\<close>. \<open>Opts\<close> holds the properties of
  \<^verbatim>\<open>LoadOpts & InternalOpts\<close>, \<^verbatim>\<open>CreateOpts\<close>, \<^verbatim>\<open>UpdateOpts\<close> and
  \<^verbatim>\<open>PinningOpts\<close> that the Repository or its callers name; \<open>syncTimeoutSeconds\<close> is in
  whole seconds.
\<close>

datatype 'a field = Absent | Undefined | Value 'a

datatype SyncOptions = PREFER_CACHE | SYNC_ALWAYS | NEVER_SYNC | SYNC_ON_ERROR

record Opts =
  sync :: "SyncOptions field"
  syncTimeoutSeconds :: "int field"
  skipCacaoExpirationChecks :: "bool field"
  pin :: "bool field"
  anchor :: "bool field"
  publish :: "bool field"
  atTime :: "int field"

record PublishOpts =
  publish_tip :: "bool field"

text \<open>A JavaScript number, as far as the timeouts need it: \<^verbatim>\<open>undefined * 1000\<close> is NaN.\<close>

datatype number = Num int | NaN

datatype OperationType = CREATE | UPDATE | LOAD

text \<open>
  The errors of the Repository, named as the specification names them: no genesis commit
  for the CID, \<^verbatim>\<open>UnreachableCaseError\<close> for an invalid sync option, the refusal to
  unpin an indexed stream (with the stream's id and model), and the failure of
  \<^verbatim>\<open>StreamUtils.checkForCacaoExpiration\<close>. \<open>Rejected\<close> is an exception or a rejected
  promise of any other collaborator call, with the collaborator's message.
\<close>

datatype error =
    NoGenesisCommit CID
  | InvalidSyncOption
  | CannotUnpinIndexed StreamID "StreamID option"
  | CapabilityExpired
  | Rejected string

text \<open>The messages given to \<^verbatim>\<open>logger.verbose\<close>.\<close>

datatype message =
    GenesisLoaded StreamID
  | ApplyCommitToStream StreamID
  | AppliedWriteOpts StreamID

text \<open>
  The calls the Repository makes: \<open>InmemoryGet\<close> and \<open>NewRunningState\<close> carry the result
  of the call as their last argument, \<open>ConsoleWarn\<close> carries the three values interpolated
  in the warning of \<^verbatim>\<open>handlePinOpts\<close>.
\<close>

datatype event =
    InmemoryGet StreamID "ref option"
  | InmemorySet StreamID ref
  | MetricsCount string nat
  | StateStoreLoad StreamID
  | NewRunningState StreamState bool ref
  | AnchorRequestStoreLoad StreamID
  | ConfirmAnchorResponse ref CID
  | HandlersGet string
  | GetCommitData CID StreamID
  | HandlerApplyCommit nat CommitData
  | LoggerVerbose message
  | ConsoleWarn string StreamID string
  | Sync ref number "CID option"
  | MarkPinnedAndSynced StreamID
  | AtCommit ref CommitID
  | StateManagerApplyCommit StreamID nat Opts
  | StateManagerApplyWriteOpts ref Opts
  | PinStoreAdd ref "bool option"
  | PublishTip ref
  | MarkUnpinned StreamID
  | PinStoreRm ref

section \<open>Programs: world passing, errors as values, recorded calls\<close>

type_synonym ('w, 'a) prog = "'w \<Rightarrow> (error + 'a) \<times> 'w \<times> event list"

definition return :: "'a \<Rightarrow> ('w, 'a) prog" where
  "return a = (\<lambda>w. (Inr a, w, []))"

definition throw :: "error \<Rightarrow> ('w, 'a) prog" where
  "throw e = (\<lambda>w. (Inl e, w, []))"

definition bind :: "('w, 'a) prog \<Rightarrow> ('a \<Rightarrow> ('w, 'b) prog) \<Rightarrow> ('w, 'b) prog" where
  "bind m f = (\<lambda>w. case m w of
       (Inl e, w1, t1) \<Rightarrow> (Inl e, w1, t1)
     | (Inr a, w1, t1) \<Rightarrow> (case f a w1 of (r, w2, t2) \<Rightarrow> (r, w2, t1 @ t2)))"

definition emit :: "event \<Rightarrow> ('w, unit) prog" where
  "emit ev = (\<lambda>w. (Inr (), w, [ev]))"

text \<open>A read of the collaborators' state: no effect, no event.\<close>

definition peek :: "('w \<Rightarrow> 'a) \<Rightarrow> ('w, 'a) prog" where
  "peek f = (\<lambda>w. (Inr (f w), w, []))"

text \<open>
  A synchronous collaborator call with an effect; the recorded event may show the result.
\<close>

definition call :: "('a \<Rightarrow> event) \<Rightarrow> ('w \<Rightarrow> 'a \<times> 'w) \<Rightarrow> ('w, 'a) prog" where
  "call ev f = (\<lambda>w. case f w of (a, w1) \<Rightarrow> (Inr a, w1, [ev a]))"

text \<open>
  A collaborator call that can fail: an awaited call whose promise resolves or rejects, or
  a synchronous call that returns or throws (inside an async function a throw rejects the
  function's promise).
\<close>

definition await :: "event \<Rightarrow> ('w \<Rightarrow> (string + 'a) \<times> 'w) \<Rightarrow> ('w, 'a) prog" where
  "await ev f = (\<lambda>w. case f w of
       (Inl m, w1) \<Rightarrow> (Inl (Rejected m), w1, [ev])
     | (Inr a, w1) \<Rightarrow> (Inr a, w1, [ev]))"

text \<open>
  A promise observed without propagating its rejection: the outcome becomes a value.
  \<^verbatim>\<open>Promise.all\<close> starts every task before it looks at any outcome.
\<close>

definition settle :: "('w, 'a) prog \<Rightarrow> ('w, error + 'a) prog" where
  "settle m = (\<lambda>w. case m w of (r, w1, t1) \<Rightarrow> (Inr r, w1, t1))"

text \<open>\<^verbatim>\<open>a || b\<close> and \<^verbatim>\<open>a && b\<close>: the right operand runs only when it decides the result.\<close>

definition por :: "('w, bool) prog \<Rightarrow> ('w, bool) prog \<Rightarrow> ('w, bool) prog" where
  "por a b = bind a (\<lambda>x. if x then return True else b)"

definition pand :: "('w, bool) prog \<Rightarrow> ('w, bool) prog \<Rightarrow> ('w, bool) prog" where
  "pand a b = bind a (\<lambda>x. if x then b else return False)"

section \<open>The collaborators\<close>

text \<open>
  \<open>inmemory_get\<close>, \<open>inmemory_set\<close>: the StateCache. \<open>new_RunningState\<close>, \<open>deref\<close>: the
  constructor of RunningState and the reading of an object's fields. \<open>stateStore_load\<close>,
  \<open>pinStore_add\<close>, \<open>pinStore_rm\<close>: the pin store and its state store.
  \<open>anchorRequestStore_load\<close>: the anchor request store (\<open>None\<close> is \<^verbatim>\<open>null\<close>).
  \<open>handlers_get\<close>, \<open>handler_applyCommit\<close>: the handlers map and a handler (a handler is
  a number). \<open>getCommitData\<close>: \<^verbatim>\<open>Utils.getCommitData\<close> on the dispatcher (\<open>None\<close> is
  \<^verbatim>\<open>null\<close>). \<open>cacaoExpired\<close>: whether \<^verbatim>\<open>StreamUtils.checkForCacaoExpiration\<close> throws.
  \<open>shouldIndexStream\<close>: the indexing API. The others are methods of the StateManager.
  Calls that return a promise, and \<open>handlers_get\<close>, can fail.
\<close>

record 'w deps =
  inmemory_get :: "StreamID \<Rightarrow> 'w \<Rightarrow> ref option \<times> 'w"
  inmemory_set :: "StreamID \<Rightarrow> ref \<Rightarrow> 'w \<Rightarrow> unit \<times> 'w"
  new_RunningState :: "StreamState \<Rightarrow> bool \<Rightarrow> 'w \<Rightarrow> ref \<times> 'w"
  deref :: "ref \<Rightarrow> 'w \<Rightarrow> RunningState"
  stateStore_load :: "StreamID \<Rightarrow> 'w \<Rightarrow> (string + StreamState option) \<times> 'w"
  anchorRequestStore_load :: "StreamID \<Rightarrow> 'w \<Rightarrow> (string + AnchorRequest option) \<times> 'w"
  anchorService_present :: "'w \<Rightarrow> bool"
  confirmAnchorResponse :: "ref \<Rightarrow> CID \<Rightarrow> 'w \<Rightarrow> unit \<times> 'w"
  handlers_get :: "string \<Rightarrow> 'w \<Rightarrow> (string + nat) \<times> 'w"
  getCommitData :: "CID \<Rightarrow> StreamID \<Rightarrow> 'w \<Rightarrow> (string + CommitData option) \<times> 'w"
  handler_applyCommit :: "nat \<Rightarrow> CommitData \<Rightarrow> 'w \<Rightarrow> (string + StreamState) \<times> 'w"
  wasPinnedStreamSynced :: "StreamID \<Rightarrow> 'w \<Rightarrow> bool"
  markPinnedAndSynced :: "StreamID \<Rightarrow> 'w \<Rightarrow> unit \<times> 'w"
  markUnpinned :: "StreamID \<Rightarrow> 'w \<Rightarrow> unit \<times> 'w"
  stateManager_sync :: "ref \<Rightarrow> number \<Rightarrow> CID option \<Rightarrow> 'w \<Rightarrow> (string + unit) \<times> 'w"
  stateManager_atCommit :: "ref \<Rightarrow> CommitID \<Rightarrow> 'w \<Rightarrow> (string + SnapshotState) \<times> 'w"
  stateManager_applyCommit :: "StreamID \<Rightarrow> nat \<Rightarrow> Opts \<Rightarrow> 'w \<Rightarrow> (string + ref) \<times> 'w"
  stateManager_applyWriteOpts :: "ref \<Rightarrow> Opts \<Rightarrow> 'w \<Rightarrow> (string + unit) \<times> 'w"
  publishTip :: "ref \<Rightarrow> 'w \<Rightarrow> unit \<times> 'w"
  cacaoExpired :: "StreamState \<Rightarrow> 'w \<Rightarrow> bool"
  streamIdFromState :: "StreamState \<Rightarrow> StreamID"
  shouldIndexStream :: "StreamID \<Rightarrow> 'w \<Rightarrow> bool"
  pinStore_add :: "ref \<Rightarrow> bool option \<Rightarrow> 'w \<Rightarrow> (string + unit) \<times> 'w"
  pinStore_rm :: "ref \<Rightarrow> 'w \<Rightarrow> (string + unit) \<times> 'w"

section \<open>The Repository\<close>

definition CACHE_HIT_MEMORY :: string where "CACHE_HIT_MEMORY = ''cache_hit_memory''"
definition CACHE_HIT_LOCAL :: string where "CACHE_HIT_LOCAL = ''cache_hit_local''"
definition CACHE_HIT_REMOTE :: string where "CACHE_HIT_REMOTE = ''cache_hit_remote''"
definition STREAM_SYNC :: string where "STREAM_SYNC = ''stream_sync''"

definition DEFAULT_LOAD_OPTS :: Opts where
  "DEFAULT_LOAD_OPTS = \<lparr> sync = Value PREFER_CACHE, syncTimeoutSeconds = Value 3,
     skipCacaoExpirationChecks = Absent, pin = Absent, anchor = Absent, publish = Absent,
     atTime = Absent \<rparr>"

text \<open>\<^verbatim>\<open>{ ...a, ...b }\<close>, one property at a time: a property present in \<open>b\<close> wins.\<close>

fun spread_prop :: "'a field \<Rightarrow> 'a field \<Rightarrow> 'a field" where
  "spread_prop a Absent = a"
| "spread_prop a b = b"

definition spread :: "Opts \<Rightarrow> Opts \<Rightarrow> Opts" where
  "spread a b = \<lparr> sync = spread_prop (sync a) (sync b),
     syncTimeoutSeconds = spread_prop (syncTimeoutSeconds a) (syncTimeoutSeconds b),
     skipCacaoExpirationChecks =
       spread_prop (skipCacaoExpirationChecks a) (skipCacaoExpirationChecks b),
     pin = spread_prop (pin a) (pin b),
     anchor = spread_prop (anchor a) (anchor b),
     publish = spread_prop (publish a) (publish b),
     atTime = spread_prop (atTime a) (atTime b) \<rparr>"

text \<open>Truthiness of an optional boolean property.\<close>

fun truthy :: "bool field \<Rightarrow> bool" where
  "truthy (Value b) = b"
| "truthy _ = False"

text \<open>\<^verbatim>\<open>x !== undefined\<close> for a property read.\<close>

fun defined :: "'a field \<Rightarrow> bool" where
  "defined (Value _) = True"
| "defined _ = False"

text \<open>\<^verbatim>\<open>opts.syncTimeoutSeconds * 1000\<close>.\<close>

fun timeoutMs :: "int field \<Rightarrow> number" where
  "timeoutMs (Value n) = Num (n * 1000)"
| "timeoutMs _ = NaN"

text \<open>The functions of \<^verbatim>\<open>repository.ts\<close>, each under its own name.\<close>

definition shouldIndex :: "'w deps \<Rightarrow> ref \<Rightarrow> ('w, bool) prog" where
  "shouldIndex d r =
     bind (peek (deref d r)) (\<lambda>s.
       case model (state s) of
         None \<Rightarrow> return False
       | Some m \<Rightarrow> peek (shouldIndexStream d m))"

text \<open>
  \<^verbatim>\<open>add\<close> sets the cache entry of the RunningState's own id; \<open>RunningState_new\<close> is
  \<^verbatim>\<open>new RunningState(state, pinned)\<close>.
\<close>

definition add :: "'w deps \<Rightarrow> ref \<Rightarrow> ('w, unit) prog" where
  "add d r =
     bind (peek (deref d r)) (\<lambda>s.
       call (\<lambda>_. InmemorySet (rs_id s) r) (inmemory_set d (rs_id s) r))"

definition RunningState_new :: "'w deps \<Rightarrow> StreamState \<Rightarrow> bool \<Rightarrow> ('w, ref) prog" where
  "RunningState_new d s pinned =
     call (NewRunningState s pinned) (new_RunningState d s pinned)"

definition fromMemory :: "'w deps \<Rightarrow> StreamID \<Rightarrow> ('w, ref option) prog" where
  "fromMemory d streamId =
     bind (call (InmemoryGet streamId) (inmemory_get d streamId)) (\<lambda>st.
       case st of
         Some r \<Rightarrow> bind (emit (MetricsCount CACHE_HIT_MEMORY 1)) (\<lambda>_. return (Some r))
       | None \<Rightarrow> return None)"

definition fromStreamStateStore :: "'w deps \<Rightarrow> StreamID \<Rightarrow> ('w, ref option) prog" where
  "fromStreamStateStore d streamId =
     bind (await (StateStoreLoad streamId) (stateStore_load d streamId)) (\<lambda>streamState.
       case streamState of
         Some s \<Rightarrow>
           bind (emit (MetricsCount CACHE_HIT_LOCAL 1)) (\<lambda>_.
           bind (RunningState_new d s True) (\<lambda>runningState.
           bind (add d runningState) (\<lambda>_.
           bind (await (AnchorRequestStoreLoad streamId) (anchorRequestStore_load d streamId))
             (\<lambda>storedRequest.
           bind (peek (anchorService_present d)) (\<lambda>hasService.
           bind (case storedRequest of
                   Some req \<Rightarrow>
                     if hasService
                     then call (\<lambda>_. ConfirmAnchorResponse runningState (request_cid req))
                            (confirmAnchorResponse d runningState (request_cid req))
                     else return ()
                 | None \<Rightarrow> return ()) (\<lambda>_.
           return (Some runningState)))))))
       | None \<Rightarrow> return None)"

definition fromNetwork :: "'w deps \<Rightarrow> StreamID \<Rightarrow> ('w, ref) prog" where
  "fromNetwork d streamId =
     bind (await (HandlersGet (typeName streamId)) (handlers_get d (typeName streamId)))
       (\<lambda>handler.
     bind (await (GetCommitData (cid streamId) streamId)
             (getCommitData d (cid streamId) streamId)) (\<lambda>commitData.
       case commitData of
         None \<Rightarrow> throw (NoGenesisCommit (cid streamId))
       | Some cd \<Rightarrow>
           bind (emit (MetricsCount CACHE_HIT_REMOTE 1)) (\<lambda>_.
           bind (await (HandlerApplyCommit handler (cd\<lparr>disableTimecheck := True\<rparr>))
                   (handler_applyCommit d handler (cd\<lparr>disableTimecheck := True\<rparr>)))
             (\<lambda>s.
           bind (RunningState_new d s False) (\<lambda>r.
           bind (add d r) (\<lambda>_.
           bind (emit (LoggerVerbose (GenesisLoaded streamId))) (\<lambda>_.
           return r)))))))"

text \<open>\<^verbatim>\<open>_loadGenesis\<close>.\<close>

definition loadGenesis :: "'w deps \<Rightarrow> StreamID \<Rightarrow> ('w, ref \<times> bool) prog" where
  "loadGenesis d streamId =
     bind (fromMemory d streamId) (\<lambda>stream.
       case stream of
         Some r \<Rightarrow> return (r, True)
       | None \<Rightarrow>
           bind (fromStreamStateStore d streamId) (\<lambda>stream.
             case stream of
               Some r \<Rightarrow>
                 bind (peek (wasPinnedStreamSynced d streamId)) (\<lambda>b. return (r, b))
             | None \<Rightarrow>
                 bind (fromNetwork d streamId) (\<lambda>r. return (r, False))))"

definition fromMemoryOrStore :: "'w deps \<Rightarrow> StreamID \<Rightarrow> ('w, ref option) prog" where
  "fromMemoryOrStore d streamId =
     bind (fromMemory d streamId) (\<lambda>m.
       case m of
         Some r \<Rightarrow> return (Some r)
       | None \<Rightarrow> fromStreamStateStore d streamId)"

subsection \<open>Promise.all of fromNetwork and fromMemoryOrStore\<close>

text \<open>
  In the \<^verbatim>\<open>SYNC_ALWAYS\<close> branch the two async functions run concurrently. Each runs
  synchronously up to its first \<^verbatim>\<open>await\<close> when it is called (fromNetwork first), and
  afterwards one segment at a time, a segment being the resolution of the awaited call
  followed by the code up to the next \<^verbatim>\<open>await\<close>. Which task advances next is not
  determined by the code: it is a parameter, the schedule (\<open>True\<close>: fromNetwork,
  \<open>False\<close>: fromMemoryOrStore; a finished task stutters; when the schedule ends the tasks
  finish one after the other). \<^verbatim>\<open>Promise.all\<close> rejects at the first rejection; what the
  other task still does in the background afterwards is not modelled.
\<close>

datatype net_task = NetGetCommit nat | NetApply nat CommitData | NetDone ref

datatype mem_task = MemLoad | MemAnchor ref | MemDone "ref option"

definition net_start :: "'w deps \<Rightarrow> StreamID \<Rightarrow> ('w, net_task) prog" where
  "net_start d streamId =
     bind (await (HandlersGet (typeName streamId)) (handlers_get d (typeName streamId)))
       (\<lambda>handler. return (NetGetCommit handler))"

definition net_fetch :: "'w deps \<Rightarrow> StreamID \<Rightarrow> ('w, CommitData) prog" where
  "net_fetch d streamId =
     bind (await (GetCommitData (cid streamId) streamId)
             (getCommitData d (cid streamId) streamId)) (\<lambda>commitData.
       case commitData of
         None \<Rightarrow> throw (NoGenesisCommit (cid streamId))
       | Some cd \<Rightarrow>
           bind (emit (MetricsCount CACHE_HIT_REMOTE 1)) (\<lambda>_.
           return (cd\<lparr>disableTimecheck := True\<rparr>)))"

definition net_apply :: "'w deps \<Rightarrow> StreamID \<Rightarrow> nat \<Rightarrow> CommitData \<Rightarrow> ('w, ref) prog" where
  "net_apply d streamId handler cd =
     bind (await (HandlerApplyCommit handler cd) (handler_applyCommit d handler cd)) (\<lambda>s.
     bind (RunningState_new d s False) (\<lambda>r.
     bind (add d r) (\<lambda>_.
     bind (emit (LoggerVerbose (GenesisLoaded streamId))) (\<lambda>_.
     return r))))"

fun net_step :: "'w deps \<Rightarrow> StreamID \<Rightarrow> net_task \<Rightarrow> ('w, net_task) prog" where
  "net_step d streamId (NetGetCommit h) =
     bind (net_fetch d streamId) (\<lambda>cd. return (NetApply h cd))"
| "net_step d streamId (NetApply h cd) =
     bind (net_apply d streamId h cd) (\<lambda>r. return (NetDone r))"
| "net_step d streamId (NetDone r) = return (NetDone r)"

fun net_rest :: "'w deps \<Rightarrow> StreamID \<Rightarrow> net_task \<Rightarrow> ('w, ref) prog" where
  "net_rest d streamId (NetGetCommit h) =
     bind (net_fetch d streamId) (\<lambda>cd. net_apply d streamId h cd)"
| "net_rest d streamId (NetApply h cd) = net_apply d streamId h cd"
| "net_rest d streamId (NetDone r) = return r"

definition mem_start :: "'w deps \<Rightarrow> StreamID \<Rightarrow> ('w, mem_task) prog" where
  "mem_start d streamId =
     bind (fromMemory d streamId) (\<lambda>m.
       case m of
         Some r \<Rightarrow> return (MemDone (Some r))
       | None \<Rightarrow> return MemLoad)"

definition mem_load :: "'w deps \<Rightarrow> StreamID \<Rightarrow> ('w, ref option) prog" where
  "mem_load d streamId =
     bind (await (StateStoreLoad streamId) (stateStore_load d streamId)) (\<lambda>streamState.
       case streamState of
         Some s \<Rightarrow>
           bind (emit (MetricsCount CACHE_HIT_LOCAL 1)) (\<lambda>_.
           bind (RunningState_new d s True) (\<lambda>runningState.
           bind (add d runningState) (\<lambda>_.
           return (Some runningState))))
       | None \<Rightarrow> return None)"

definition mem_anchor :: "'w deps \<Rightarrow> StreamID \<Rightarrow> ref \<Rightarrow> ('w, ref option) prog" where
  "mem_anchor d streamId runningState =
     bind (await (AnchorRequestStoreLoad streamId) (anchorRequestStore_load d streamId))
       (\<lambda>storedRequest.
     bind (peek (anchorService_present d)) (\<lambda>hasService.
     bind (case storedRequest of
             Some req \<Rightarrow>
               if hasService
               then call (\<lambda>_. ConfirmAnchorResponse runningState (request_cid req))
                      (confirmAnchorResponse d runningState (request_cid req))
               else return ()
           | None \<Rightarrow> return ()) (\<lambda>_.
     return (Some runningState))))"

fun mem_step :: "'w deps \<Rightarrow> StreamID \<Rightarrow> mem_task \<Rightarrow> ('w, mem_task) prog" where
  "mem_step d streamId MemLoad =
     bind (mem_load d streamId) (\<lambda>x.
       case x of Some r \<Rightarrow> return (MemAnchor r) | None \<Rightarrow> return (MemDone None))"
| "mem_step d streamId (MemAnchor r) =
     bind (mem_anchor d streamId r) (\<lambda>x. return (MemDone x))"
| "mem_step d streamId (MemDone x) = return (MemDone x)"

fun mem_rest :: "'w deps \<Rightarrow> StreamID \<Rightarrow> mem_task \<Rightarrow> ('w, ref option) prog" where
  "mem_rest d streamId MemLoad =
     bind (mem_load d streamId) (\<lambda>x.
       case x of Some r \<Rightarrow> mem_anchor d streamId r | None \<Rightarrow> return None)"
| "mem_rest d streamId (MemAnchor r) = mem_anchor d streamId r"
| "mem_rest d streamId (MemDone x) = return x"

fun interleave ::
  "bool list \<Rightarrow> 'w deps \<Rightarrow> StreamID \<Rightarrow> net_task \<Rightarrow> mem_task \<Rightarrow> ('w, ref \<times> ref option) prog"
where
  "interleave [] d streamId n m =
     bind (net_rest d streamId n) (\<lambda>r.
     bind (mem_rest d streamId m) (\<lambda>x. return (r, x)))"
| "interleave (b # bs) d streamId n m =
     (if b then bind (net_step d streamId n) (\<lambda>n'. interleave bs d streamId n' m)
      else bind (mem_step d streamId m) (\<lambda>m'. interleave bs d streamId n m'))"

text \<open>
  \<^verbatim>\<open>Promise.all([this.fromNetwork(streamId), this.fromMemoryOrStore(streamId)])\<close>:
  both calls are made, in this order, before any outcome is looked at.
\<close>

definition promise_all ::
  "'w deps \<Rightarrow> bool list \<Rightarrow> StreamID \<Rightarrow> ('w, ref \<times> ref option) prog" where
  "promise_all d sched streamId =
     bind (settle (net_start d streamId)) (\<lambda>started.
     bind (mem_start d streamId) (\<lambda>m.
       case started of
         Inl e \<Rightarrow> throw e
       | Inr n \<Rightarrow> interleave sched d streamId n m))"

subsection \<open>load and the operations built on it\<close>

definition checkForCacaoExpiration :: "'w deps \<Rightarrow> StreamState \<Rightarrow> ('w, unit) prog" where
  "checkForCacaoExpiration d s =
     bind (peek (cacaoExpired d s)) (\<lambda>expired.
       if expired then throw CapabilityExpired else return ())"

text \<open>
  \<^verbatim>\<open>loadingQ.forStream(streamId).run(task)\<close> runs the task when the stream's turn comes;
  for one operation taken alone that is running the task.
\<close>

definition load :: "'w deps \<Rightarrow> bool list \<Rightarrow> StreamID \<Rightarrow> Opts \<Rightarrow> ('w, ref) prog" where
  "load d sched streamId opts0 =
     (let opts = spread DEFAULT_LOAD_OPTS opts0 in
      bind
       (if sync opts = Value PREFER_CACHE \<or> sync opts = Value SYNC_ON_ERROR then
          bind (loadGenesis d streamId) (\<lambda>(streamState, alreadySynced).
            if alreadySynced then return (streamState, alreadySynced)
            else
              bind (await (Sync streamState (timeoutMs (syncTimeoutSeconds opts)) None)
                      (stateManager_sync d streamState (timeoutMs (syncTimeoutSeconds opts))
                         None)) (\<lambda>_.
              bind (emit (MetricsCount STREAM_SYNC 1)) (\<lambda>_.
              return (streamState, True))))
        else if sync opts = Value NEVER_SYNC then loadGenesis d streamId
        else if sync opts = Value SYNC_ALWAYS then
          bind (promise_all d sched streamId) (\<lambda>(fromNetwork, fromMemoryOrStore).
          bind (peek (\<lambda>w. map_option (\<lambda>r. tip (deref d r w)) fromMemoryOrStore))
            (\<lambda>hint.
          bind (await (Sync fromNetwork (timeoutMs (syncTimeoutSeconds opts)) hint)
                  (stateManager_sync d fromNetwork
                     (timeoutMs (syncTimeoutSeconds opts)) hint)) (\<lambda>_.
          bind (emit (MetricsCount STREAM_SYNC 1)) (\<lambda>_.
          return (fromNetwork, True)))))
        else throw InvalidSyncOption)
       (\<lambda>(state', synced).
          bind (if \<not> truthy (skipCacaoExpirationChecks opts)
                then bind (peek (deref d state')) (\<lambda>s. checkForCacaoExpiration d (state s))
                else return ()) (\<lambda>_.
          bind (peek (deref d state')) (\<lambda>s.
          bind (if synced \<and> isPinned s
                then call (\<lambda>_. MarkPinnedAndSynced (rs_id s)) (markPinnedAndSynced d (rs_id s))
                else return ()) (\<lambda>_.
          return state')))))"

definition loadAtCommit ::
  "'w deps \<Rightarrow> bool list \<Rightarrow> CommitID \<Rightarrow> Opts \<Rightarrow> ('w, SnapshotState) prog" where
  "loadAtCommit d sched commitId opts =
     (let optsSkippingCACAOChecks = opts\<lparr>skipCacaoExpirationChecks := Value True\<rparr> in
      bind (load d sched (baseID commitId) optsSkippingCACAOChecks) (\<lambda>base.
      bind (await (AtCommit base commitId) (stateManager_atCommit d base commitId))
        (\<lambda>stateAtCommit.
      bind (checkForCacaoExpiration d (snapshot_state stateAtCommit)) (\<lambda>_.
      return stateAtCommit))))"

text \<open>\<^verbatim>\<open>pin\<close> (the name \<open>pin\<close> is the option's).\<close>

definition pin_stream :: "'w deps \<Rightarrow> ref \<Rightarrow> bool option \<Rightarrow> ('w, unit) prog" where
  "pin_stream d r force = await (PinStoreAdd r force) (pinStore_add d r force)"

definition unpin :: "'w deps \<Rightarrow> ref \<Rightarrow> PublishOpts option \<Rightarrow> ('w, unit) prog" where
  "unpin d r opts =
     bind (shouldIndex d r) (\<lambda>indexed.
       if indexed then
         bind (peek (deref d r)) (\<lambda>s.
           throw (CannotUnpinIndexed (rs_id s) (model (state s))))
       else
         bind (if (case opts of Some po \<Rightarrow> truthy (publish_tip po) | None \<Rightarrow> False)
               then call (\<lambda>_. PublishTip r) (publishTip d r)
               else return ()) (\<lambda>_.
         bind (peek (deref d r)) (\<lambda>s.
         bind (call (\<lambda>_. MarkUnpinned (rs_id s)) (markUnpinned d (rs_id s))) (\<lambda>_.
         await (PinStoreRm r) (pinStore_rm d r)))))"

definition handlePinOpts :: "'w deps \<Rightarrow> ref \<Rightarrow> Opts \<Rightarrow> OperationType \<Rightarrow> ('w, unit) prog" where
  "handlePinOpts d r opts opType =
     (if defined (pin opts) \<and> opType \<noteq> CREATE then
        bind (peek (deref d r)) (\<lambda>s.
          emit (ConsoleWarn (if truthy (pin opts) then ''pin'' else ''unpin'')
                  (streamIdFromState d (state s))
                  (if opType = UPDATE then ''update'' else ''load'')))
      else
        bind (por (return (truthy (pin opts)))
               (por (pand (return (\<not> defined (pin opts))) (shouldIndex d r))
                    (pand (return (\<not> defined (pin opts))) (return (opType = CREATE)))))
          (\<lambda>c.
            if c then pin_stream d r None
            else if pin opts = Value False then unpin d r None
            else return ()))"

definition applyWriteOpts :: "'w deps \<Rightarrow> ref \<Rightarrow> Opts \<Rightarrow> OperationType \<Rightarrow> ('w, unit) prog" where
  "applyWriteOpts d r opts opType =
     bind (await (StateManagerApplyWriteOpts r opts) (stateManager_applyWriteOpts d r opts))
       (\<lambda>_. handlePinOpts d r opts opType)"

definition applyCommit :: "'w deps \<Rightarrow> StreamID \<Rightarrow> nat \<Rightarrow> Opts \<Rightarrow> ('w, ref) prog" where
  "applyCommit d streamId c opts =
     bind (emit (LoggerVerbose (ApplyCommitToStream streamId))) (\<lambda>_.
     bind (await (StateManagerApplyCommit streamId c opts)
             (stateManager_applyCommit d streamId c opts)) (\<lambda>r.
     bind (applyWriteOpts d r opts UPDATE) (\<lambda>_.
     bind (emit (LoggerVerbose (AppliedWriteOpts streamId))) (\<lambda>_.
     return r))))"

definition applyCreateOpts :: "'w deps \<Rightarrow> bool list \<Rightarrow> StreamID \<Rightarrow> Opts \<Rightarrow> ('w, ref) prog" where
  "applyCreateOpts d sched streamId opts =
     bind (load d sched streamId opts) (\<lambda>r.
     bind (peek (deref d r)) (\<lambda>s.
     bind (applyWriteOpts d r opts
             (if length (log (state s)) = 1 then CREATE else LOAD)) (\<lambda>_.
     return r)))"

definition streamState :: "'w deps \<Rightarrow> StreamID \<Rightarrow> ('w, StreamState option) prog" where
  "streamState d streamId =
     bind (call (InmemoryGet streamId) (inmemory_get d streamId)) (\<lambda>fromMem.
       case fromMem of
         Some r \<Rightarrow> bind (peek (deref d r)) (\<lambda>s. return (Some (state s)))
       | None \<Rightarrow> await (StateStoreLoad streamId) (stateStore_load d streamId))"

section \<open>Observing a run\<close>

definition outcome :: "('w, 'a) prog \<Rightarrow> 'w \<Rightarrow> error + 'a" where
  "outcome p w = fst (p w)"

definition world_after :: "('w, 'a) prog \<Rightarrow> 'w \<Rightarrow> 'w" where
  "world_after p w = fst (snd (p w))"

definition events :: "('w, 'a) prog \<Rightarrow> 'w \<Rightarrow> event list" where
  "events p w = snd (snd (p w))"

fun is_Sync :: "event \<Rightarrow> bool" where
  "is_Sync (Sync r t h) = True"
| "is_Sync _ = False"

text \<open>
  The words of the specification for an indexed stream: the stream has a model and the
  indexing API reports that streams of this model should be indexed.
\<close>

definition stream_indexed :: "'w deps \<Rightarrow> ref \<Rightarrow> 'w \<Rightarrow> bool" where
  "stream_indexed d r w =
     (case model (state (deref d r w)) of
        None \<Rightarrow> False
      | Some m \<Rightarrow> shouldIndexStream d m w)"

text \<open>The result of an awaited call, as the caller of the Repository sees it.\<close>

fun settled :: "string + 'a \<Rightarrow> error + 'a" where
  "settled (Inl m) = Inl (Rejected m)"
| "settled (Inr a) = Inr a"

text \<open>
  Modelled from the spec: the pin store's \<^verbatim>\<open>add\<close>, whose code is not part of
  \<^verbatim>\<open>repository.ts\<close>. A stream that the pin store has accepted is pinned: its
  RunningState reports \<^verbatim>\<open>isPinned\<close> (``Pin: durability flag; pinned streams have
  their latest state persisted locally'').
\<close>

definition pinStore_marks_pinned :: "'w deps \<Rightarrow> bool" where
  "pinStore_marks_pinned d =
     (\<forall>r force w w'. pinStore_add d r force w = (Inr (), w') \<longrightarrow> isPinned (deref d r w'))"

text \<open>Events that create a RunningState, add to the in-memory cache, or reach the network.\<close>

fun creates_or_fetches :: "event \<Rightarrow> bool" where
  "creates_or_fetches (NewRunningState s p r) = True"
| "creates_or_fetches (InmemorySet k r) = True"
| "creates_or_fetches (HandlersGet n) = True"
| "creates_or_fetches (GetCommitData c k) = True"
| "creates_or_fetches (HandlerApplyCommit h cd) = True"
| "creates_or_fetches _ = False"

text \<open>Every event of every run satisfies \<open>P\<close>; every error of every run satisfies \<open>Q\<close>.\<close>

definition emits_only :: "(event \<Rightarrow> bool) \<Rightarrow> ('w, 'a) prog \<Rightarrow> bool" where
  "emits_only P p = (\<forall>w. \<forall>ev \<in> set (events p w). P ev)"

definition raises_only :: "(error \<Rightarrow> bool) \<Rightarrow> ('w, 'a) prog \<Rightarrow> bool" where
  "raises_only Q p = (\<forall>w e. outcome p w = Inl e \<longrightarrow> Q e)"






section \<open>In-memory collaborators\<close>

text \<open>
  One concrete set of collaborators, kept as simple as the contracts allow, on which the
  Repository can be run: objects in a list (a reference is an index), the cache and the
  stores as association lists.
\<close>

record world =
  objects :: "RunningState list"
  cache :: "(StreamID \<times> ref) list"
  store :: "(StreamID \<times> StreamState) list"
  requests :: "(StreamID \<times> AnchorRequest) list"
  network :: "(CID \<times> CommitData) list"
  anchorService :: bool
  syncedStreams :: "StreamID list"
  indexedModels :: "StreamID list"
  expired :: "CID list"

definition mem_streamId :: "StreamState \<Rightarrow> StreamID" where
  "mem_streamId s =
     \<lparr> typeName = ''tile'', cid = (case log s of [] \<Rightarrow> 0 | e # _ \<Rightarrow> entry_cid e) \<rparr>"

definition mem_tip :: "StreamState \<Rightarrow> CID" where
  "mem_tip s = (case rev (log s) of [] \<Rightarrow> 0 | e # _ \<Rightarrow> entry_cid e)"

definition mem_genesis :: "nat \<Rightarrow> CommitData \<Rightarrow> StreamState" where
  "mem_genesis h cd =
     \<lparr> stream_type = h,
       log = [\<lparr> entry_cid = commit_cid cd, entry_type = GENESIS, timestamp = None \<rparr>],
       content = [], controllers = [], model = None \<rparr>"

definition mem_object :: "StreamState \<Rightarrow> bool \<Rightarrow> RunningState" where
  "mem_object s pinned =
     \<lparr> rs_id = mem_streamId s, state = s, isPinned = pinned, tip = mem_tip s \<rparr>"

definition mem_deref :: "ref \<Rightarrow> world \<Rightarrow> RunningState" where
  "mem_deref r w =
     (if r < length (objects w) then objects w ! r else mem_object (mem_genesis 0
        \<lparr> commit_cid = 0, payload = 0, disableTimecheck = False \<rparr>) False)"

definition mem_set_pinned :: "ref \<Rightarrow> bool \<Rightarrow> world \<Rightarrow> world" where
  "mem_set_pinned r b w =
     (if r < length (objects w)
      then w\<lparr>objects := (objects w)[r := (objects w ! r)\<lparr>isPinned := b\<rparr>]\<rparr>
      else w)"

definition mem_deps :: "world deps" where
  "mem_deps = \<lparr>
     inmemory_get = (\<lambda>k w. (map_of (cache w) k, w)),
     inmemory_set = (\<lambda>k r w. ((), w\<lparr>cache := (k, r) # cache w\<rparr>)),
     new_RunningState = (\<lambda>s pinned w.
       (length (objects w), w\<lparr>objects := objects w @ [mem_object s pinned]\<rparr>)),
     deref = mem_deref,
     stateStore_load = (\<lambda>k w. (Inr (map_of (store w) k), w)),
     anchorRequestStore_load = (\<lambda>k w. (Inr (map_of (requests w) k), w)),
     anchorService_present = anchorService,
     confirmAnchorResponse = (\<lambda>r c w. ((), w)),
     handlers_get = (\<lambda>n w. (if n = ''tile'' then Inr 0 else Inl ''no handler'', w)),
     getCommitData = (\<lambda>c k w. (Inr (map_of (network w) c), w)),
     handler_applyCommit = (\<lambda>h cd w. (Inr (mem_genesis h cd), w)),
     wasPinnedStreamSynced = (\<lambda>k w. k \<in> set (syncedStreams w)),
     markPinnedAndSynced = (\<lambda>k w. ((), w\<lparr>syncedStreams := k # syncedStreams w\<rparr>)),
     markUnpinned = (\<lambda>k w. ((), w\<lparr>syncedStreams := removeAll k (syncedStreams w)\<rparr>)),
     stateManager_sync = (\<lambda>r t h w. (Inr (), w)),
     stateManager_atCommit = (\<lambda>r c w. (Inr (SnapshotState (state (mem_deref r w))), w)),
     stateManager_applyCommit = (\<lambda>k c opts w.
       (case map_of (cache w) k of Some r \<Rightarrow> Inr r | None \<Rightarrow> Inl ''unknown stream'', w)),
     stateManager_applyWriteOpts = (\<lambda>r opts w. (Inr (), w)),
     publishTip = (\<lambda>r w. ((), w)),
     cacaoExpired = (\<lambda>s w. mem_tip s \<in> set (expired w)),
     streamIdFromState = mem_streamId,
     shouldIndexStream = (\<lambda>m w. m \<in> set (indexedModels w)),
     pinStore_add = (\<lambda>r force w.
       if r < length (objects w)
       then (Inr (), (mem_set_pinned r True w)
               \<lparr>store := (rs_id (mem_deref r w), state (mem_deref r w)) # store w\<rparr>)
       else (Inl ''no such stream'', w)),
     pinStore_rm = (\<lambda>r w.
       if r < length (objects w)
       then (Inr (), (mem_set_pinned r False w)
               \<lparr>store := filter (\<lambda>(k, s). k \<noteq> rs_id (mem_deref r w)) (store w)\<rparr>)
       else (Inl ''no such stream'', w)) \<rparr>"

text \<open>Streams, options and worlds to run the Repository on.\<close>

definition tile_id :: "CID \<Rightarrow> StreamID" where
  "tile_id c = \<lparr> typeName = ''tile'', cid = c \<rparr>"

definition tile_state :: "CID \<Rightarrow> CID list \<Rightarrow> StreamID option \<Rightarrow> StreamState" where
  "tile_state g cs m =
     \<lparr> stream_type = 0,
       log = \<lparr> entry_cid = g, entry_type = GENESIS, timestamp = None \<rparr> #
             map (\<lambda>c. \<lparr> entry_cid = c, entry_type = SIGNED, timestamp = None \<rparr>) cs,
       content = [], controllers = [], model = m \<rparr>"

definition no_opts :: Opts where
  "no_opts = \<lparr> sync = Absent, syncTimeoutSeconds = Absent,
     skipCacaoExpirationChecks = Absent, pin = Absent, anchor = Absent, publish = Absent,
     atTime = Absent \<rparr>"

definition empty_world :: world where
  "empty_world = \<lparr> objects = [], cache = [], store = [], requests = [], network = [],
     anchorService = True, syncedStreams = [], indexedModels = [], expired = [] \<rparr>"

text \<open>Stream 1, pinned, is in the cache.\<close>

definition cached_world :: world where
  "cached_world = empty_world\<lparr> objects := [mem_object (tile_state 1 [] None) True],
     cache := [(tile_id 1, 0)], store := [(tile_id 1, tile_state 1 [] None)] \<rparr>"

text \<open>
  Stream 1 is in the state store only, with a persisted anchor request; the node has no
  anchor service.
\<close>

definition stored_world :: world where
  "stored_world = empty_world\<lparr> store := [(tile_id 1, tile_state 1 [2] None)],
     requests := [(tile_id 1, \<lparr> request_cid = 2 \<rparr>)], anchorService := False \<rparr>"

text \<open>The same, on a node with an anchor service.\<close>

definition anchored_world :: world where
  "anchored_world = stored_world\<lparr> anchorService := True \<rparr>"

text \<open>Stream 3 is known to the network only.\<close>

definition net_world :: world where
  "net_world = empty_world\<lparr> network :=
     [(3, \<lparr> commit_cid = 3, payload = 0, disableTimecheck = False \<rparr>)] \<rparr>"

text \<open>Stream 1 is in the state store, with a second commit, and on the network.\<close>

definition both_world :: world where
  "both_world = empty_world\<lparr> store := [(tile_id 1, tile_state 1 [2] None)],
     network := [(1, \<lparr> commit_cid = 1, payload = 0, disableTimecheck = False \<rparr>)] \<rparr>"

text \<open>Stream 1, pinned and cached, belongs to model 9, which the node indexes.\<close>

definition indexed_world :: world where
  "indexed_world = empty_world\<lparr>
     objects := [mem_object (tile_state 1 [] (Some (tile_id 9))) True],
     cache := [(tile_id 1, 0)], store := [(tile_id 1, tile_state 1 [] (Some (tile_id 9)))],
     indexedModels := [tile_id 9] \<rparr>"

text \<open>Stream 1, pinned and cached, carries a capability that has expired.\<close>

definition expired_world :: world where
  "expired_world = cached_world\<lparr> expired := [1] \<rparr>"

section \<open>Running programs\<close>

subsection \<open>Running a program\<close>

lemma bind_apply:
  "bind m f w = (case m w of
       (Inl e, w1, t1) \<Rightarrow> (Inl e, w1, t1)
     | (Inr a, w1, t1) \<Rightarrow> (case f a w1 of (r, w2, t2) \<Rightarrow> (r, w2, t1 @ t2)))"
  by (simp add: bind_def)

lemma return_apply: "return a w = (Inr a, w, [])"
  by (simp add: return_def)

lemma throw_apply: "throw e w = (Inl e, w, [])"
  by (simp add: throw_def)

lemma emit_apply: "emit ev w = (Inr (), w, [ev])"
  by (simp add: emit_def)

lemma peek_apply: "peek f w = (Inr (f w), w, [])"
  by (simp add: peek_def)

lemma call_apply: "call ev f w = (Inr (fst (f w)), snd (f w), [ev (fst (f w))])"
  by (simp add: call_def split: prod.splits)

lemma await_apply: "await ev f w = (settled (fst (f w)), snd (f w), [ev])"
  by (cases "f w"; cases "fst (f w)") (auto simp: await_def)

lemma settle_apply: "settle m w = (Inr (fst (m w)), snd (m w))"
  by (simp add: settle_def split: prod.splits)

lemmas run_simps = bind_apply return_apply throw_apply emit_apply peek_apply call_apply
  await_apply settle_apply

lemma por_apply: "por a b w = bind a (\<lambda>x. if x then return True else b) w"
  by (simp add: por_def)

lemma pand_apply: "pand a b w = bind a (\<lambda>x. if x then b else return False) w"
  by (simp add: pand_def)

lemma bind_return_left: "bind (return a) f = f a"
  by (rule ext) (simp add: run_simps split: prod.splits)

lemma bind_return_right: "bind m return = m"
  by (rule ext) (simp add: run_simps split: prod.splits sum.splits)

lemma bind_assoc: "bind (bind m f) g = bind m (\<lambda>a. bind (f a) g)"
  by (rule ext) (simp add: run_simps split: prod.splits sum.splits)


lemma run_eq: "p w = (outcome p w, world_after p w, events p w)"
  by (simp add: outcome_def world_after_def events_def)

subsection \<open>Merging the options\<close>

lemma spread_absent_sync:
  "sync opts = Absent \<Longrightarrow> spread DEFAULT_LOAD_OPTS opts = spread DEFAULT_LOAD_OPTS (opts\<lparr>sync := Value PREFER_CACHE\<rparr>)"
  by (simp add: spread_def DEFAULT_LOAD_OPTS_def)

lemma spread_absent_timeout:
  "syncTimeoutSeconds opts = Absent \<Longrightarrow> spread DEFAULT_LOAD_OPTS opts = spread DEFAULT_LOAD_OPTS (opts\<lparr>syncTimeoutSeconds := Value 3\<rparr>)"
  by (simp add: spread_def DEFAULT_LOAD_OPTS_def)

lemma spread_prop_absent [simp]: "spread_prop Absent b = b"
  by (cases b) auto

lemma spread_defaults_fields:
  "sync (spread DEFAULT_LOAD_OPTS opts) = (if sync opts = Absent then Value PREFER_CACHE else sync opts)"
  "syncTimeoutSeconds (spread DEFAULT_LOAD_OPTS opts) = (if syncTimeoutSeconds opts = Absent then Value 3 else syncTimeoutSeconds opts)"
  "skipCacaoExpirationChecks (spread DEFAULT_LOAD_OPTS opts) = skipCacaoExpirationChecks opts"
  "pin (spread DEFAULT_LOAD_OPTS opts) = pin opts"
  by (cases "sync opts"; cases "syncTimeoutSeconds opts"; simp add: spread_def DEFAULT_LOAD_OPTS_def)+

subsection \<open>The functions of the Repository, run\<close>

lemma shouldIndex_apply: "shouldIndex d r w = (Inr (stream_indexed d r w), w, [])"
  by (simp add: shouldIndex_def stream_indexed_def run_simps split: option.splits)

lemma fromMemory_apply:
  "fromMemory d streamId w =
     (case inmemory_get d streamId w of
        (Some r, w1) \<Rightarrow> (Inr (Some r), w1, [InmemoryGet streamId (Some r), MetricsCount CACHE_HIT_MEMORY 1])
      | (None, w1) \<Rightarrow> (Inr None, w1, [InmemoryGet streamId None]))"
  by (simp add: fromMemory_def run_simps split: prod.splits option.splits)

lemma add_apply:
  "add d r w = (Inr (), snd (inmemory_set d (rs_id (deref d r w)) r w), [InmemorySet (rs_id (deref d r w)) r])"
  by (simp add: add_def run_simps)

lemma RunningState_new_apply:
  "RunningState_new d s p w = (Inr (fst (new_RunningState d s p w)), snd (new_RunningState d s p w),
      [NewRunningState s p (fst (new_RunningState d s p w))])"
  by (simp add: RunningState_new_def run_simps)

lemma fromStreamStateStore_hit:
  assumes "stateStore_load d streamId w1 = (Inr (Some s), w2)"
      and "new_RunningState d s True w2 = (r, w3)"
      and "inmemory_set d (rs_id (deref d r w3)) r w3 = ((), w4)"
      and "anchorRequestStore_load d streamId w4 = (Inr req, w5)"
  shows "fromStreamStateStore d streamId w1 =
     (Inr (Some r),
      (case req of
         Some q \<Rightarrow> if anchorService_present d w5 then snd (confirmAnchorResponse d r (request_cid q) w5) else w5
       | None \<Rightarrow> w5),
      [StateStoreLoad streamId, MetricsCount CACHE_HIT_LOCAL 1, NewRunningState s True r,
       InmemorySet (rs_id (deref d r w3)) r, AnchorRequestStoreLoad streamId] @
      (case req of
         Some q \<Rightarrow> if anchorService_present d w5 then [ConfirmAnchorResponse r (request_cid q)] else []
       | None \<Rightarrow> []))"
  using assms
  by (simp add: fromStreamStateStore_def run_simps add_apply RunningState_new_apply split: option.splits)

lemma fromStreamStateStore_miss:
  assumes "stateStore_load d streamId w1 = (Inr None, w2)"
  shows "fromStreamStateStore d streamId w1 = (Inr None, w2, [StateStoreLoad streamId])"
  using assms
  by (simp add: fromStreamStateStore_def run_simps)

lemma fromNetwork_ok:
  assumes "handlers_get d (typeName streamId) w2 = (Inr h, w3)"
      and "getCommitData d (cid streamId) streamId w3 = (Inr (Some cd), w4)"
      and "handler_applyCommit d h (cd\<lparr>disableTimecheck := True\<rparr>) w4 = (Inr s, w5)"
      and "new_RunningState d s False w5 = (r, w6)"
      and "inmemory_set d (rs_id (deref d r w6)) r w6 = ((), w7)"
  shows "fromNetwork d streamId w2 =
     (Inr r, w7,
      [HandlersGet (typeName streamId), GetCommitData (cid streamId) streamId,
       MetricsCount CACHE_HIT_REMOTE 1, HandlerApplyCommit h (cd\<lparr>disableTimecheck := True\<rparr>),
       NewRunningState s False r, InmemorySet (rs_id (deref d r w6)) r,
       LoggerVerbose (GenesisLoaded streamId)])"
  using assms
  by (simp add: fromNetwork_def run_simps add_apply RunningState_new_apply)

lemma unpin_apply:
  "unpin d r opts w =
     (if stream_indexed d r w
      then (Inl (CannotUnpinIndexed (rs_id (deref d r w)) (model (state (deref d r w)))), w, [])
      else
        (let pub = (case opts of Some po \<Rightarrow> truthy (publish_tip po) | None \<Rightarrow> False);
             w1 = (if pub then snd (publishTip d r w) else w);
             k = rs_id (deref d r w1);
             w2 = snd (markUnpinned d k w1)
         in (settled (fst (pinStore_rm d r w2)), snd (pinStore_rm d r w2),
             (if pub then [PublishTip r] else []) @ [MarkUnpinned k, PinStoreRm r])))"
  by (simp add: unpin_def run_simps shouldIndex_apply Let_def split: prod.splits sum.splits)

lemma settled_not_indexed: "settled x \<noteq> Inl (CannotUnpinIndexed k m)"
  by (cases x) simp_all

lemma handlePinOpts_create_false:
  "pin opts = Value False \<Longrightarrow> handlePinOpts d r opts CREATE w = unpin d r None w"
  by (simp add: handlePinOpts_def run_simps por_apply pand_apply pin_stream_def)

subsection \<open>What every run records and raises\<close>

lemma emits_only_return: "emits_only P (return a)"
  and emits_only_throw: "emits_only P (throw e)"
  and emits_only_peek: "emits_only P (peek g)"
  by (simp_all add: emits_only_def events_def run_simps)

lemma emits_only_emit: "P ev \<Longrightarrow> emits_only P (emit ev)"
  and emits_only_await: "P ev \<Longrightarrow> emits_only P (await ev f)"
  by (simp_all add: emits_only_def events_def run_simps)

lemma emits_only_call: "(\<And>a. P (evf a)) \<Longrightarrow> emits_only P (call evf f)"
  by (simp add: emits_only_def events_def run_simps)

lemma emits_only_bind:
  "emits_only P m \<Longrightarrow> (\<And>a. emits_only P (f a)) \<Longrightarrow> emits_only P (bind m f)"
  unfolding emits_only_def events_def bind_def
  by (auto split: prod.splits sum.splits) (metis snd_conv)+

lemma emits_only_settle: "emits_only P m \<Longrightarrow> emits_only P (settle m)"
  by (simp add: emits_only_def events_def settle_apply)

lemmas emits_only_intros = emits_only_return emits_only_throw emits_only_peek emits_only_emit
  emits_only_await emits_only_call emits_only_bind emits_only_settle

lemma raises_only_return: "raises_only Q (return a)"
  and raises_only_peek: "raises_only Q (peek g)"
  and raises_only_emit: "raises_only Q (emit ev)"
  and raises_only_call: "raises_only Q (call evf h)"
  and raises_only_settle: "raises_only Q (settle m)"
  by (simp_all add: raises_only_def outcome_def run_simps)

lemma raises_only_throw: "Q e \<Longrightarrow> raises_only Q (throw e)"
  by (simp add: raises_only_def outcome_def run_simps)

lemma raises_only_await: "(\<And>m. Q (Rejected m)) \<Longrightarrow> raises_only Q (await ev f)"
  unfolding raises_only_def outcome_def await_def
  by (auto split: prod.splits sum.splits)

lemma raises_only_bind:
  "raises_only Q m \<Longrightarrow> (\<And>a. raises_only Q (f a)) \<Longrightarrow> raises_only Q (bind m f)"
  unfolding raises_only_def outcome_def bind_def
  by (auto split: prod.splits sum.splits) (metis fst_conv)+

lemma raises_onlyD: "raises_only Q p \<Longrightarrow> p w = (Inl e, w1, t1) \<Longrightarrow> Q e"
  unfolding raises_only_def outcome_def by (metis fst_conv)

lemma raises_only_outcomeD: "raises_only Q p \<Longrightarrow> outcome p w = Inl e \<Longrightarrow> Q e"
  unfolding raises_only_def by blast

lemmas raises_only_intros = raises_only_return raises_only_peek raises_only_emit
  raises_only_call raises_only_settle raises_only_throw raises_only_await raises_only_bind

lemma filter_emits_only:
  assumes "emits_only (\<lambda>ev. \<not> is_Sync ev) p" and "p w = (res, w1, t1)"
  shows "filter is_Sync t1 = []"
proof -
  have "\<forall>ev \<in> set (events p w). \<not> is_Sync ev"
    using assms(1) by (simp add: emits_only_def)
  then show ?thesis
    using assms(2) by (simp add: events_def filter_empty_conv)
qed

lemma fromMemory_no_sync: "emits_only (\<lambda>ev. \<not> is_Sync ev) (fromMemory d streamId)"
  unfolding fromMemory_def
  by (intro emits_only_intros) (simp_all add: emits_only_intros split: option.splits)

lemma fromStreamStateStore_no_sync:
  "emits_only (\<lambda>ev. \<not> is_Sync ev) (fromStreamStateStore d streamId)"
  unfolding fromStreamStateStore_def RunningState_new_def add_def
  by (intro emits_only_intros) (simp_all add: emits_only_intros split: option.splits)

lemma fromNetwork_no_sync: "emits_only (\<lambda>ev. \<not> is_Sync ev) (fromNetwork d streamId)"
  unfolding fromNetwork_def RunningState_new_def add_def
  by (intro emits_only_intros) (simp_all add: emits_only_intros split: option.splits)

lemma loadGenesis_no_sync: "emits_only (\<lambda>ev. \<not> is_Sync ev) (loadGenesis d streamId)"
  unfolding loadGenesis_def
  by (intro emits_only_intros fromMemory_no_sync)
     (simp_all add: emits_only_intros fromStreamStateStore_no_sync fromNetwork_no_sync
        split: option.splits)

text \<open>What load does once it holds the state and the synced flag.\<close>

lemma load_tail_no_sync:
  "emits_only (\<lambda>ev. \<not> is_Sync ev)
     (bind (if c then bind (peek (deref d r)) (\<lambda>s. checkForCacaoExpiration d (state s))
            else return ()) (\<lambda>_.
      bind (peek (deref d r)) (\<lambda>s.
      bind (if synced \<and> isPinned s
            then call (\<lambda>_. MarkPinnedAndSynced (rs_id s)) (markPinnedAndSynced d (rs_id s))
            else return ()) (\<lambda>_.
      return r))))"
  unfolding checkForCacaoExpiration_def
  by (intro emits_only_intros) (simp_all add: emits_only_intros)

lemma load_tail_result:
  "outcome
     (bind (if c then bind (peek (deref d r)) (\<lambda>s. checkForCacaoExpiration d (state s))
            else return ()) (\<lambda>_.
      bind (peek (deref d r)) (\<lambda>s.
      bind (if synced \<and> isPinned s
            then call (\<lambda>_. MarkPinnedAndSynced (rs_id s)) (markPinnedAndSynced d (rs_id s))
            else return ()) (\<lambda>_.
      return r)))) w = Inr r' \<Longrightarrow> r' = r"
  by (auto simp: outcome_def checkForCacaoExpiration_def run_simps
      split: if_splits prod.splits sum.splits)

lemma fromMemory_not_expired:
  "raises_only (\<lambda>e. e \<noteq> CapabilityExpired) (fromMemory d streamId)"
  unfolding fromMemory_def
  by (intro raises_only_intros) (simp_all add: raises_only_intros split: option.splits)

lemma fromStreamStateStore_not_expired:
  "raises_only (\<lambda>e. e \<noteq> CapabilityExpired) (fromStreamStateStore d streamId)"
  unfolding fromStreamStateStore_def RunningState_new_def add_def
  by (intro raises_only_intros) (simp_all add: raises_only_intros split: option.splits)

lemma fromNetwork_not_expired:
  "raises_only (\<lambda>e. e \<noteq> CapabilityExpired) (fromNetwork d streamId)"
  unfolding fromNetwork_def RunningState_new_def add_def
  by (intro raises_only_intros) (simp_all add: raises_only_intros split: option.splits)

lemma loadGenesis_not_expired:
  "raises_only (\<lambda>e. e \<noteq> CapabilityExpired) (loadGenesis d streamId)"
  unfolding loadGenesis_def
  by (intro raises_only_intros fromMemory_not_expired)
     (simp_all add: raises_only_intros fromStreamStateStore_not_expired fromNetwork_not_expired
        split: option.splits)

subsection \<open>The two tasks of Promise.all\<close>

text \<open>The tasks are the two functions, cut at their awaits.\<close>

lemma fromNetwork_tasks: "fromNetwork d streamId = bind (net_start d streamId) (net_rest d streamId)"
  by (rule ext)
     (simp add: fromNetwork_def net_start_def net_fetch_def net_apply_def run_simps
        split: prod.splits sum.splits option.splits)

lemma fromMemoryOrStore_tasks:
  "fromMemoryOrStore d streamId = bind (mem_start d streamId) (mem_rest d streamId)"
  by (rule ext)
     (simp add: fromMemoryOrStore_def fromStreamStateStore_def mem_start_def mem_load_def
        mem_anchor_def fromMemory_apply run_simps
        split: prod.splits sum.splits option.splits)

lemma net_rest_step: "net_rest d streamId n = bind (net_step d streamId n) (net_rest d streamId)"
  by (cases n; rule ext) (simp_all add: run_simps split: prod.splits sum.splits)

lemma mem_rest_step: "mem_rest d streamId m = bind (mem_step d streamId m) (mem_rest d streamId)"
  by (cases m; rule ext) (simp_all add: run_simps split: prod.splits sum.splits option.splits)

lemma net_fetch_props:
  "emits_only (\<lambda>ev. \<not> is_Sync ev) (net_fetch d streamId)"
  "raises_only (\<lambda>e. e \<noteq> CapabilityExpired) (net_fetch d streamId)"
  unfolding net_fetch_def
  by (intro emits_only_intros raises_only_intros;
      simp add: emits_only_intros raises_only_intros split: option.splits)+

lemma net_apply_props:
  "emits_only (\<lambda>ev. \<not> is_Sync ev) (net_apply d streamId h cd)"
  "raises_only (\<lambda>e. e \<noteq> CapabilityExpired) (net_apply d streamId h cd)"
  unfolding net_apply_def RunningState_new_def add_def
  by (intro emits_only_intros raises_only_intros;
      simp add: emits_only_intros raises_only_intros split: option.splits)+

lemma mem_load_props:
  "emits_only (\<lambda>ev. \<not> is_Sync ev) (mem_load d streamId)"
  "raises_only (\<lambda>e. e \<noteq> CapabilityExpired) (mem_load d streamId)"
  unfolding mem_load_def RunningState_new_def add_def
  by (intro emits_only_intros raises_only_intros;
      simp add: emits_only_intros raises_only_intros split: option.splits)+

lemma mem_anchor_props:
  "emits_only (\<lambda>ev. \<not> is_Sync ev) (mem_anchor d streamId r)"
  "raises_only (\<lambda>e. e \<noteq> CapabilityExpired) (mem_anchor d streamId r)"
  unfolding mem_anchor_def
  by (intro emits_only_intros raises_only_intros;
      simp add: emits_only_intros raises_only_intros split: option.splits)+

lemma net_step_props:
  "emits_only (\<lambda>ev. \<not> is_Sync ev) (net_step d streamId n)"
  "raises_only (\<lambda>e. e \<noteq> CapabilityExpired) (net_step d streamId n)"
  by (cases n; simp add: emits_only_intros raises_only_intros net_fetch_props net_apply_props)+

lemma net_rest_props:
  "emits_only (\<lambda>ev. \<not> is_Sync ev) (net_rest d streamId n)"
  "raises_only (\<lambda>e. e \<noteq> CapabilityExpired) (net_rest d streamId n)"
  by (cases n; simp add: emits_only_intros raises_only_intros net_fetch_props net_apply_props)+

lemma mem_step_props:
  "emits_only (\<lambda>ev. \<not> is_Sync ev) (mem_step d streamId m)"
  "raises_only (\<lambda>e. e \<noteq> CapabilityExpired) (mem_step d streamId m)"
  by (cases m; auto intro!: emits_only_intros raises_only_intros mem_load_props mem_anchor_props
        split: option.splits)+

lemma mem_rest_props:
  "emits_only (\<lambda>ev. \<not> is_Sync ev) (mem_rest d streamId m)"
  "raises_only (\<lambda>e. e \<noteq> CapabilityExpired) (mem_rest d streamId m)"
  by (cases m; auto intro!: emits_only_intros raises_only_intros mem_load_props mem_anchor_props
        split: option.splits)+

lemma interleave_no_sync:
  "emits_only (\<lambda>ev. \<not> is_Sync ev) (interleave sched d streamId n m)"
proof (induction sched arbitrary: n m)
  case Nil
  show ?case
    unfolding interleave.simps
    by (intro emits_only_bind net_rest_props mem_rest_props emits_only_return)
next
  case (Cons b bs)
  show ?case
  proof (cases b)
    case True
    then show ?thesis
      by (simp add: emits_only_bind net_step_props Cons.IH)
  next
    case False
    then show ?thesis
      by (simp add: emits_only_bind mem_step_props Cons.IH)
  qed
qed

lemma interleave_not_expired:
  "raises_only (\<lambda>e. e \<noteq> CapabilityExpired) (interleave sched d streamId n m)"
proof (induction sched arbitrary: n m)
  case Nil
  show ?case
    unfolding interleave.simps
    by (intro raises_only_bind net_rest_props mem_rest_props raises_only_return)
next
  case (Cons b bs)
  show ?case
  proof (cases b)
    case True
    then show ?thesis
      by (simp add: raises_only_bind net_step_props Cons.IH)
  next
    case False
    then show ?thesis
      by (simp add: raises_only_bind mem_step_props Cons.IH)
  qed
qed

lemma net_start_props:
  "emits_only (\<lambda>ev. \<not> is_Sync ev) (net_start d streamId)"
  "raises_only (\<lambda>e. e \<noteq> CapabilityExpired) (net_start d streamId)"
  unfolding net_start_def
  by (intro emits_only_intros raises_only_intros; simp)+

lemma mem_start_props:
  "emits_only (\<lambda>ev. \<not> is_Sync ev) (mem_start d streamId)"
  "raises_only (\<lambda>e. e \<noteq> CapabilityExpired) (mem_start d streamId)"
  unfolding mem_start_def
  by (intro emits_only_intros raises_only_intros fromMemory_no_sync fromMemory_not_expired;
      simp add: emits_only_intros raises_only_intros split: option.splits)+

lemma promise_all_no_sync:
  "emits_only (\<lambda>ev. \<not> is_Sync ev) (promise_all d sched streamId)"
  unfolding promise_all_def
  by (intro emits_only_intros net_start_props mem_start_props)
     (simp add: emits_only_intros interleave_no_sync split: sum.splits)

lemma promise_all_apply:
  assumes "net_start d streamId w = (res, w1, t1)"
      and "mem_start d streamId w1 = (mr, w2, t2)"
  shows "promise_all d sched streamId w =
     (case mr of
        Inl e2 \<Rightarrow> (Inl e2, w2, t1 @ t2)
      | Inr m' \<Rightarrow>
          (case res of
             Inl e1 \<Rightarrow> (Inl e1, w2, t1 @ t2)
           | Inr n' \<Rightarrow>
               (case interleave sched d streamId n' m' w2 of
                  (r, w3, t3) \<Rightarrow> (r, w3, t1 @ t2 @ t3))))"
proof (cases mr)
  case (Inl e2)
  then show ?thesis
    using assms by (simp add: promise_all_def bind_def settle_def)
next
  case (Inr m')
  then show ?thesis
    using assms
    by (cases res; cases "interleave sched d streamId (projr res) m' w2")
       (simp_all add: promise_all_def bind_def settle_def throw_def)
qed

lemma promise_all_not_expired:
  "raises_only (\<lambda>e. e \<noteq> CapabilityExpired) (promise_all d sched streamId)"
  unfolding raises_only_def
proof (intro allI impI)
  fix w e
  assume a: "outcome (promise_all d sched streamId) w = Inl e"
  obtain res w1 t1 where n: "net_start d streamId w = (res, w1, t1)"
    by (cases "net_start d streamId w")
  obtain mr w2 t2 where m: "mem_start d streamId w1 = (mr, w2, t2)"
    by (cases "mem_start d streamId w1")
  note pa = promise_all_apply [OF n m, of sched]
  show "e \<noteq> CapabilityExpired"
  proof (cases mr)
    case (Inl e2)
    with pa a have "e = e2" by (simp add: outcome_def)
    moreover have "e2 \<noteq> CapabilityExpired"
      using raises_onlyD [OF mem_start_props(2), of d streamId w1 e2 w2 t2] m Inl by simp
    ultimately show ?thesis by simp
  next
    case (Inr m')
    show ?thesis
    proof (cases res)
      case (Inl e1)
      with pa a Inr have "e = e1" by (simp add: outcome_def)
      moreover have "e1 \<noteq> CapabilityExpired"
        using raises_onlyD [OF net_start_props(2), of d streamId w e1 w1 t1] n Inl by simp
      ultimately show ?thesis by simp
    next
      case r: (Inr n')
      obtain r3 w3 t3 where i: "interleave sched d streamId n' m' w2 = (r3, w3, t3)"
        by (cases "interleave sched d streamId n' m' w2")
      with pa a Inr r have "r3 = Inl e" by (simp add: outcome_def)
      with i show ?thesis
        using raises_onlyD [OF interleave_not_expired, of sched d streamId n' m' w2 e w3 t3]
        by simp
    qed
  qed
qed

lemma load_skip_not_expired:
  assumes "truthy (skipCacaoExpirationChecks opts)"
  shows "raises_only (\<lambda>e. e \<noteq> CapabilityExpired) (load d sched streamId opts)"
proof -
  let ?Q = "\<lambda>e. e \<noteq> CapabilityExpired"
  let ?opts = "spread DEFAULT_LOAD_OPTS opts"
  have skip: "truthy (skipCacaoExpirationChecks ?opts)"
    using assms by (simp add: spread_defaults_fields)
  have cached: "\<And>T. raises_only ?Q
      (bind (loadGenesis d streamId) (\<lambda>(streamState, alreadySynced).
            if alreadySynced then return (streamState, alreadySynced)
            else
              bind (await (Sync streamState T None) (stateManager_sync d streamState T None)) (\<lambda>_.
              bind (emit (MetricsCount STREAM_SYNC 1)) (\<lambda>_.
              return (streamState, True)))))"
    by (rule raises_only_bind [OF loadGenesis_not_expired])
       (simp add: raises_only_intros split: prod.splits)
  have always: "\<And>T. raises_only ?Q
      (bind (promise_all d sched streamId) (\<lambda>(fromNetwork, fromMemoryOrStore).
          bind (peek (\<lambda>w. map_option (\<lambda>r. tip (deref d r w)) fromMemoryOrStore))
            (\<lambda>hint.
          bind (await (Sync fromNetwork T hint) (stateManager_sync d fromNetwork T hint)) (\<lambda>_.
          bind (emit (MetricsCount STREAM_SYNC 1)) (\<lambda>_.
          return (fromNetwork, True))))))"
    by (rule raises_only_bind [OF promise_all_not_expired])
       (simp add: raises_only_intros split: prod.splits)
  have tail: "\<And>a. raises_only ?Q
       ((\<lambda>(state', synced).
          bind (if \<not> truthy (skipCacaoExpirationChecks ?opts)
                then bind (peek (deref d state')) (\<lambda>s. checkForCacaoExpiration d (state s))
                else return ()) (\<lambda>_.
          bind (peek (deref d state')) (\<lambda>s.
          bind (if synced \<and> isPinned s
                then call (\<lambda>_. MarkPinnedAndSynced (rs_id s)) (markPinnedAndSynced d (rs_id s))
                else return ()) (\<lambda>_.
          return state')))) a)"
    using skip by (simp add: raises_only_intros split: prod.splits)
  show ?thesis
    unfolding load_def Let_def
    by (rule raises_only_bind [OF _ tail])
       (simp add: cached always loadGenesis_not_expired raises_only_intros del: One_nat_def)
qed























subsection \<open>load, by its merged options\<close>

lemma timeoutMs_merged:
  "timeoutMs (syncTimeoutSeconds (spread DEFAULT_LOAD_OPTS opts)) =
     (case syncTimeoutSeconds opts of
        Absent \<Rightarrow> Num 3000 | Undefined \<Rightarrow> NaN | Value n \<Rightarrow> Num (n * 1000))"
  by (cases "syncTimeoutSeconds opts") (simp_all add: spread_defaults_fields)

lemma load_cache_sync:
  assumes "sync (spread DEFAULT_LOAD_OPTS opts) = Value PREFER_CACHE
             \<or> sync (spread DEFAULT_LOAD_OPTS opts) = Value SYNC_ON_ERROR"
      and "loadGenesis d streamId w = (Inr (r, synced), wa, ta)"
  shows "filter is_Sync (events (load d sched streamId opts) w) =
           (if synced then []
            else [Sync r (timeoutMs (syncTimeoutSeconds (spread DEFAULT_LOAD_OPTS opts))) None])
         \<and> (\<forall>r'. outcome (load d sched streamId opts) w = Inr r' \<longrightarrow> r' = r)"
proof -
  let ?opts = "spread DEFAULT_LOAD_OPTS opts"
  let ?tail = "\<lambda>(state', synced).
          bind (if \<not> truthy (skipCacaoExpirationChecks ?opts)
                then bind (peek (deref d state')) (\<lambda>s. checkForCacaoExpiration d (state s))
                else return ()) (\<lambda>_.
          bind (peek (deref d state')) (\<lambda>s.
          bind (if synced \<and> isPinned s
                then call (\<lambda>_. MarkPinnedAndSynced (rs_id s)) (markPinnedAndSynced d (rs_id s))
                else return ()) (\<lambda>_.
          return state')))"
  have s: "sync ?opts = Value PREFER_CACHE \<or> sync ?opts = Value SYNC_ON_ERROR"
    using assms(1) .
  have ta: "filter is_Sync ta = []"
    using loadGenesis_no_sync assms(2) by (rule filter_emits_only)
  have tl: "\<And>b w'. filter is_Sync (events (?tail (r, b)) w') = []"
    using load_tail_no_sync [of "\<not> truthy (skipCacaoExpirationChecks ?opts)" d r]
    by (simp add: emits_only_def filter_empty_conv)
  have res: "\<And>b w' r'. outcome (?tail (r, b)) w' = Inr r' \<Longrightarrow> r' = r"
    using load_tail_result [of "\<not> truthy (skipCacaoExpirationChecks ?opts)" d r]
    by simp
  show ?thesis
  proof (cases synced)
    case True
    then have "load d sched streamId opts w =
        (case ?tail (r, True) wa of (res, wb, tb) \<Rightarrow> (res, wb, ta @ tb))"
      using s assms(2) by (simp add: load_def Let_def bind_apply return_apply)
    then show ?thesis
      using True ta tl [of True wa] res [of True wa]
      by (auto simp: events_def outcome_def split: prod.splits)
  next
    case False
    let ?T = "timeoutMs (syncTimeoutSeconds ?opts)"
    obtain sr wb where sy: "stateManager_sync d r ?T None wa = (sr, wb)"
      by (cases "stateManager_sync d r ?T None wa")
    show ?thesis
    proof (cases sr)
      case (Inl m)
      then have "load d sched streamId opts w = (Inl (Rejected m), wb, ta @ [Sync r ?T None])"
        using s assms(2) False sy
        by (simp add: load_def Let_def bind_apply return_apply await_apply)
      then show ?thesis
        using False ta by (simp add: events_def outcome_def)
    next
      case (Inr u)
      then have "load d sched streamId opts w =
        (case ?tail (r, True) wb of (res, wc, tc) \<Rightarrow>
           (res, wc, (ta @ [Sync r ?T None, MetricsCount STREAM_SYNC 1]) @ tc))"
        using s assms(2) False sy
        by (simp add: load_def Let_def bind_apply return_apply await_apply emit_apply
            split: prod.splits)
      then show ?thesis
        using False ta tl [of True wb] res [of True wb]
        by (auto simp: events_def outcome_def split: prod.splits)
    qed
  qed
qed

lemma load_always_sync:
  assumes "sync (spread DEFAULT_LOAD_OPTS opts) = Value SYNC_ALWAYS"
      and "promise_all d sched streamId w = (Inr (net, loc), wa, ta)"
  shows "(\<exists>rest. events (load d sched streamId opts) w =
             ta @ Sync net (timeoutMs (syncTimeoutSeconds (spread DEFAULT_LOAD_OPTS opts)))
                    (map_option (\<lambda>l. tip (deref d l wa)) loc) # rest
           \<and> filter is_Sync (ta @ rest) = [])
   \<and> (\<forall>r. outcome (load d sched streamId opts) w = Inr r \<longrightarrow> r = net)"
proof -
  let ?opts = "spread DEFAULT_LOAD_OPTS opts"
  let ?T = "timeoutMs (syncTimeoutSeconds ?opts)"
  let ?hint = "map_option (\<lambda>l. tip (deref d l wa)) loc"
  let ?tail = "\<lambda>(state', synced).
          bind (if \<not> truthy (skipCacaoExpirationChecks ?opts)
                then bind (peek (deref d state')) (\<lambda>s. checkForCacaoExpiration d (state s))
                else return ()) (\<lambda>_.
          bind (peek (deref d state')) (\<lambda>s.
          bind (if synced \<and> isPinned s
                then call (\<lambda>_. MarkPinnedAndSynced (rs_id s)) (markPinnedAndSynced d (rs_id s))
                else return ()) (\<lambda>_.
          return state')))"
  have s: "sync ?opts = Value SYNC_ALWAYS"
    using assms(1) .
  have ta: "filter is_Sync ta = []"
    using promise_all_no_sync assms(2) by (rule filter_emits_only)
  have tl: "\<And>b w'. filter is_Sync (events (?tail (net, b)) w') = []"
    using load_tail_no_sync [of "\<not> truthy (skipCacaoExpirationChecks ?opts)" d net]
    by (simp add: emits_only_def filter_empty_conv)
  have res: "\<And>b w' r'. outcome (?tail (net, b)) w' = Inr r' \<Longrightarrow> r' = net"
    using load_tail_result [of "\<not> truthy (skipCacaoExpirationChecks ?opts)" d net]
    by simp
  obtain sr wb where sy: "stateManager_sync d net ?T ?hint wa = (sr, wb)"
    by (cases "stateManager_sync d net ?T ?hint wa")
  show ?thesis
  proof (cases sr)
    case (Inl m)
    then have "load d sched streamId opts w = (Inl (Rejected m), wb, ta @ [Sync net ?T ?hint])"
      using s assms(2) sy
      by (simp add: load_def Let_def bind_apply return_apply await_apply peek_apply)
    then show ?thesis
      using ta by (simp add: events_def outcome_def)
  next
    case (Inr u)
    then have "load d sched streamId opts w =
        (case ?tail (net, True) wb of (res, wc, tc) \<Rightarrow>
           (res, wc, (ta @ [Sync net ?T ?hint, MetricsCount STREAM_SYNC 1]) @ tc))"
      using s assms(2) sy
      by (simp add: load_def Let_def bind_apply return_apply await_apply emit_apply peek_apply
          split: prod.splits)
    then show ?thesis
      using ta tl [of True wb] res [of True wb]
      by (auto simp: events_def outcome_def split: prod.splits)
  qed
qed

lemma load_never_sync:
  assumes "sync (spread DEFAULT_LOAD_OPTS opts) = Value NEVER_SYNC"
  shows "filter is_Sync (events (load d sched streamId opts) w) = []"
proof -
  let ?opts = "spread DEFAULT_LOAD_OPTS opts"
  let ?tail = "\<lambda>(state', synced).
          bind (if \<not> truthy (skipCacaoExpirationChecks ?opts)
                then bind (peek (deref d state')) (\<lambda>s. checkForCacaoExpiration d (state s))
                else return ()) (\<lambda>_.
          bind (peek (deref d state')) (\<lambda>s.
          bind (if synced \<and> isPinned s
                then call (\<lambda>_. MarkPinnedAndSynced (rs_id s)) (markPinnedAndSynced d (rs_id s))
                else return ()) (\<lambda>_.
          return state')))"
  have l: "load d sched streamId opts = bind (loadGenesis d streamId) ?tail"
    using assms by (simp add: load_def Let_def)
  have t: "\<And>a. emits_only (\<lambda>ev. \<not> is_Sync ev) (?tail a)"
  proof -
    fix a :: "ref \<times> bool"
    show "emits_only (\<lambda>ev. \<not> is_Sync ev) (?tail a)"
      using load_tail_no_sync [of "\<not> truthy (skipCacaoExpirationChecks ?opts)" d "fst a" "snd a"]
      by (simp add: split_def)
  qed
  have "emits_only (\<lambda>ev. \<not> is_Sync ev) (bind (loadGenesis d streamId) ?tail)"
    using loadGenesis_no_sync t by (rule emits_only_bind)
  then show ?thesis
    using l by (simp add: emits_only_def filter_empty_conv)
qed

subsection \<open>Runs on the in-memory collaborators\<close>

lemma mem_deps_simps:
  "inmemory_get mem_deps k w = (map_of (cache w) k, w)"
  "inmemory_set mem_deps k r w = ((), w\<lparr>cache := (k, r) # cache w\<rparr>)"
  "new_RunningState mem_deps s pinned w =
     (length (objects w), w\<lparr>objects := objects w @ [mem_object s pinned]\<rparr>)"
  "deref mem_deps = mem_deref"
  "stateStore_load mem_deps k w = (Inr (map_of (store w) k), w)"
  "anchorRequestStore_load mem_deps k w = (Inr (map_of (requests w) k), w)"
  "anchorService_present mem_deps = anchorService"
  "confirmAnchorResponse mem_deps r c w = ((), w)"
  "handlers_get mem_deps n w = (if n = ''tile'' then Inr 0 else Inl ''no handler'', w)"
  "getCommitData mem_deps c k w = (Inr (map_of (network w) c), w)"
  "handler_applyCommit mem_deps h cd w = (Inr (mem_genesis h cd), w)"
  "wasPinnedStreamSynced mem_deps k w = (k \<in> set (syncedStreams w))"
  "markPinnedAndSynced mem_deps k w = ((), w\<lparr>syncedStreams := k # syncedStreams w\<rparr>)"
  "markUnpinned mem_deps k w = ((), w\<lparr>syncedStreams := removeAll k (syncedStreams w)\<rparr>)"
  "stateManager_sync mem_deps r t hint w = (Inr (), w)"
  "stateManager_atCommit mem_deps r ci w = (Inr (SnapshotState (state (mem_deref r w))), w)"
  "stateManager_applyCommit mem_deps k c opts w =
       (case map_of (cache w) k of Some r \<Rightarrow> Inr r | None \<Rightarrow> Inl ''unknown stream'', w)"
  "stateManager_applyWriteOpts mem_deps r opts w = (Inr (), w)"
  "publishTip mem_deps r w = ((), w)"
  "cacaoExpired mem_deps s w = (mem_tip s \<in> set (expired w))"
  "streamIdFromState mem_deps = mem_streamId"
  "shouldIndexStream mem_deps m w = (m \<in> set (indexedModels w))"
  "pinStore_add mem_deps r force w =
       (if r < length (objects w)
        then (Inr (), (mem_set_pinned r True w)
               \<lparr>store := (rs_id (mem_deref r w), state (mem_deref r w)) # store w\<rparr>)
        else (Inl ''no such stream'', w))"
  "pinStore_rm mem_deps r w =
       (if r < length (objects w)
        then (Inr (), (mem_set_pinned r False w)
               \<lparr>store := filter (\<lambda>(k, s). k \<noteq> rs_id (mem_deref r w)) (store w)\<rparr>)
        else (Inl ''no such stream'', w))"
  by (simp_all add: mem_deps_def)

lemmas mem_defs = mem_deps_simps mem_deref_def mem_object_def mem_streamId_def mem_tip_def
  mem_genesis_def mem_set_pinned_def tile_id_def tile_state_def empty_world_def no_opts_def
  cached_world_def stored_world_def anchored_world_def net_world_def both_world_def
  indexed_world_def expired_world_def

lemma tile_id_sel: "typeName (tile_id c) = ''tile''" "cid (tile_id c) = c"
  by (simp_all add: tile_id_def)

lemma mem_deps_marks_pinned: "pinStore_marks_pinned mem_deps"
  by (auto simp: pinStore_marks_pinned_def mem_deps_simps mem_deref_def mem_set_pinned_def
      split: if_splits)

lemmas run_defs = loadGenesis_def fromMemory_def fromStreamStateStore_def fromNetwork_def
  add_def RunningState_new_def run_simps

lemmas load_defs = load_def checkForCacaoExpiration_def spread_def DEFAULT_LOAD_OPTS_def Let_def

lemmas task_defs = promise_all_def net_start_def mem_start_def net_fetch_def net_apply_def
  mem_load_def mem_anchor_def


lemma run_loadGenesis_anchored:
  "outcome (loadGenesis mem_deps (tile_id 1)) anchored_world = Inr (0, False)"
  by (simp add: outcome_def run_defs mem_defs)

lemma run_load_expired:
  "load mem_deps [] (tile_id 1) (no_opts\<lparr>skipCacaoExpirationChecks := Value True\<rparr>) expired_world =
     (Inr 0, expired_world\<lparr>syncedStreams := [tile_id 1]\<rparr>,
      [InmemoryGet (tile_id 1) (Some 0), MetricsCount CACHE_HIT_MEMORY 1,
       MarkPinnedAndSynced (tile_id 1)])"
  by (simp add: load_defs run_defs mem_defs)

lemma run_load_net:
  "outcome (load mem_deps [] (tile_id 3) no_opts) net_world = Inr 0
   \<and> length (log (state (deref mem_deps 0 (world_after (load mem_deps [] (tile_id 3) no_opts) net_world)))) = 1"
  by (simp add: outcome_def world_after_def load_defs run_defs mem_defs)

lemma run_applyCreateOpts_net:
  "outcome (applyCreateOpts mem_deps [] (tile_id 3) no_opts) net_world = Inr 0"
  by (simp add: outcome_def applyCreateOpts_def applyWriteOpts_def handlePinOpts_def
      pin_stream_def por_apply pand_apply shouldIndex_apply stream_indexed_def
      load_defs run_defs mem_defs)


lemma run_promise_all_net_first:
  "outcome (promise_all mem_deps [] (tile_id 1)) both_world = Inr (0, Some 1)
   \<and> tip (deref mem_deps 1 (world_after (promise_all mem_deps [] (tile_id 1)) both_world)) = 2"
  by (simp add: outcome_def world_after_def task_defs run_defs mem_defs)



section \<open>The claims\<close>

subsection \<open>Loading the genesis state\<close>

text \<open>
  Claim C1, as the code has it. \<^verbatim>\<open>_loadGenesis\<close> probes the memory cache, then the
  local state store, then the network. A memory hit returns the cached state with
  \<open>synced = True\<close>. A state-store hit constructs a RunningState with \<open>isPinned = True\<close>,
  adds it to the cache under its own id, loads the persisted anchor request and, when there
  is one and the state manager has an anchor service, confirms it through
  \<^verbatim>\<open>confirmAnchorResponse\<close>; it returns the state with
  \<^verbatim>\<open>wasPinnedStreamSynced(streamId)\<close>. Otherwise the genesis commit is fetched from the
  network, applied by the handler with \<open>disableTimecheck = True\<close>, wrapped as a
  RunningState with \<open>isPinned = False\<close>, added to the cache and returned with
  \<open>synced = False\<close>.
\<close>

theorem loadGenesis_tiers:
  "(inmemory_get d streamId w = (Some r, wa) \<longrightarrow>
      loadGenesis d streamId w =
        (Inr (r, True), wa, [InmemoryGet streamId (Some r), MetricsCount CACHE_HIT_MEMORY 1]))
   \<and> (inmemory_get d streamId w = (None, wa)
        \<and> stateStore_load d streamId wa = (Inr (Some s), wb)
        \<and> new_RunningState d s True wb = (r, wc)
        \<and> inmemory_set d (rs_id (deref d r wc)) r wc = ((), wd)
        \<and> anchorRequestStore_load d streamId wd = (Inr req, we) \<longrightarrow>
      loadGenesis d streamId w =
        (let wf = (case req of
                     Some q \<Rightarrow> if anchorService_present d we
                               then snd (confirmAnchorResponse d r (request_cid q) we) else we
                   | None \<Rightarrow> we)
         in (Inr (r, wasPinnedStreamSynced d streamId wf), wf,
             [InmemoryGet streamId None, StateStoreLoad streamId,
              MetricsCount CACHE_HIT_LOCAL 1, NewRunningState s True r,
              InmemorySet (rs_id (deref d r wc)) r, AnchorRequestStoreLoad streamId] @
             (case req of
                Some q \<Rightarrow> if anchorService_present d we
                          then [ConfirmAnchorResponse r (request_cid q)] else []
              | None \<Rightarrow> []))))
   \<and> (inmemory_get d streamId w = (None, wa)
        \<and> stateStore_load d streamId wa = (Inr None, wb)
        \<and> handlers_get d (typeName streamId) wb = (Inr h, wg)
        \<and> getCommitData d (cid streamId) streamId wg = (Inr (Some cd), wh)
        \<and> handler_applyCommit d h (cd\<lparr>disableTimecheck := True\<rparr>) wh = (Inr sn, wi)
        \<and> new_RunningState d sn False wi = (rn, wj)
        \<and> inmemory_set d (rs_id (deref d rn wj)) rn wj = ((), wk) \<longrightarrow>
      loadGenesis d streamId w =
        (Inr (rn, False), wk,
         [InmemoryGet streamId None, StateStoreLoad streamId,
          HandlersGet (typeName streamId), GetCommitData (cid streamId) streamId,
          MetricsCount CACHE_HIT_REMOTE 1,
          HandlerApplyCommit h (cd\<lparr>disableTimecheck := True\<rparr>),
          NewRunningState sn False rn, InmemorySet (rs_id (deref d rn wj)) rn,
          LoggerVerbose (GenesisLoaded streamId)]))"
proof (intro conjI impI)
  assume "inmemory_get d streamId w = (Some r, wa)"
  then show "loadGenesis d streamId w =
        (Inr (r, True), wa, [InmemoryGet streamId (Some r), MetricsCount CACHE_HIT_MEMORY 1])"
    by (simp add: loadGenesis_def bind_apply return_apply fromMemory_apply)
next
  assume a: "inmemory_get d streamId w = (None, wa)
        \<and> stateStore_load d streamId wa = (Inr (Some s), wb)
        \<and> new_RunningState d s True wb = (r, wc)
        \<and> inmemory_set d (rs_id (deref d r wc)) r wc = ((), wd)
        \<and> anchorRequestStore_load d streamId wd = (Inr req, we)"
  have "fromStreamStateStore d streamId wa = (Inr (Some r),
      (case req of
         Some q \<Rightarrow> if anchorService_present d we
                   then snd (confirmAnchorResponse d r (request_cid q) we) else we
       | None \<Rightarrow> we),
      [StateStoreLoad streamId, MetricsCount CACHE_HIT_LOCAL 1, NewRunningState s True r,
       InmemorySet (rs_id (deref d r wc)) r, AnchorRequestStoreLoad streamId] @
      (case req of
         Some q \<Rightarrow> if anchorService_present d we
                   then [ConfirmAnchorResponse r (request_cid q)] else []
       | None \<Rightarrow> []))"
    using a fromStreamStateStore_hit [of d streamId wa s wb r wc wd req we] by simp
  with a show "loadGenesis d streamId w =
        (let wf = (case req of
                     Some q \<Rightarrow> if anchorService_present d we
                               then snd (confirmAnchorResponse d r (request_cid q) we) else we
                   | None \<Rightarrow> we)
         in (Inr (r, wasPinnedStreamSynced d streamId wf), wf,
             [InmemoryGet streamId None, StateStoreLoad streamId,
              MetricsCount CACHE_HIT_LOCAL 1, NewRunningState s True r,
              InmemorySet (rs_id (deref d r wc)) r, AnchorRequestStoreLoad streamId] @
             (case req of
                Some q \<Rightarrow> if anchorService_present d we
                          then [ConfirmAnchorResponse r (request_cid q)] else []
              | None \<Rightarrow> [])))"
    by (simp add: loadGenesis_def bind_apply return_apply peek_apply fromMemory_apply Let_def)
next
  assume a: "inmemory_get d streamId w = (None, wa)
        \<and> stateStore_load d streamId wa = (Inr None, wb)
        \<and> handlers_get d (typeName streamId) wb = (Inr h, wg)
        \<and> getCommitData d (cid streamId) streamId wg = (Inr (Some cd), wh)
        \<and> handler_applyCommit d h (cd\<lparr>disableTimecheck := True\<rparr>) wh = (Inr sn, wi)
        \<and> new_RunningState d sn False wi = (rn, wj)
        \<and> inmemory_set d (rs_id (deref d rn wj)) rn wj = ((), wk)"
  have "fromStreamStateStore d streamId wa = (Inr None, wb, [StateStoreLoad streamId])"
    using a fromStreamStateStore_miss [of d streamId wa wb] by simp
  moreover have "fromNetwork d streamId wb =
     (Inr rn, wk,
      [HandlersGet (typeName streamId), GetCommitData (cid streamId) streamId,
       MetricsCount CACHE_HIT_REMOTE 1,
       HandlerApplyCommit h (cd\<lparr>disableTimecheck := True\<rparr>),
       NewRunningState sn False rn, InmemorySet (rs_id (deref d rn wj)) rn,
       LoggerVerbose (GenesisLoaded streamId)])"
    using a fromNetwork_ok [of d streamId wb h wg cd wh sn wi rn wj wk] by simp
  ultimately show "loadGenesis d streamId w =
        (Inr (rn, False), wk,
         [InmemoryGet streamId None, StateStoreLoad streamId,
          HandlersGet (typeName streamId), GetCommitData (cid streamId) streamId,
          MetricsCount CACHE_HIT_REMOTE 1,
          HandlerApplyCommit h (cd\<lparr>disableTimecheck := True\<rparr>),
          NewRunningState sn False rn, InmemorySet (rs_id (deref d rn wj)) rn,
          LoggerVerbose (GenesisLoaded streamId)])"
    using a by (simp add: loadGenesis_def bind_apply return_apply fromMemory_apply)
qed

text \<open>
  The three tiers on the in-memory collaborators: stream 1 cached, stream 1 in the state
  store with an anchor request on a node with an anchor service, stream 3 on the network.
\<close>

theorem loadGenesis_tiers_witness:
  "loadGenesis mem_deps (tile_id 1) cached_world =
     (Inr (0, True), cached_world,
      [InmemoryGet (tile_id 1) (Some 0), MetricsCount CACHE_HIT_MEMORY 1])
   \<and> outcome (loadGenesis mem_deps (tile_id 1)) anchored_world = Inr (0, False)
   \<and> events (loadGenesis mem_deps (tile_id 1)) anchored_world =
       [InmemoryGet (tile_id 1) None, StateStoreLoad (tile_id 1),
        MetricsCount CACHE_HIT_LOCAL 1, NewRunningState (tile_state 1 [2] None) True 0,
        InmemorySet (tile_id 1) 0, AnchorRequestStoreLoad (tile_id 1),
        ConfirmAnchorResponse 0 2]
   \<and> outcome (loadGenesis mem_deps (tile_id 3)) net_world = Inr (0, False)
   \<and> events (loadGenesis mem_deps (tile_id 3)) net_world =
       [InmemoryGet (tile_id 3) None, StateStoreLoad (tile_id 3), HandlersGet ''tile'',
        GetCommitData 3 (tile_id 3), MetricsCount CACHE_HIT_REMOTE 1,
        HandlerApplyCommit 0 \<lparr> commit_cid = 3, payload = 0, disableTimecheck = True \<rparr>,
        NewRunningState (mem_genesis 0 \<lparr> commit_cid = 3, payload = 0, disableTimecheck = True \<rparr>)
          False 0,
        InmemorySet (tile_id 3) 0, LoggerVerbose (GenesisLoaded (tile_id 3))]"
proof -
  have a: "inmemory_get mem_deps (tile_id 1) cached_world = (Some 0, cached_world)"
    by (simp add: mem_defs)
  note memory = loadGenesis_tiers
    [where d = mem_deps and streamId = "tile_id 1" and w = cached_world and r = 0
       and wa = cached_world, THEN conjunct1, rule_format, OF a]
  define wc where "wc = anchored_world\<lparr>objects := [mem_object (tile_state 1 [2] None) True]\<rparr>"
  define wd where "wd = wc\<lparr>cache := [(tile_id 1, 0)]\<rparr>"
  have b: "inmemory_get mem_deps (tile_id 1) anchored_world = (None, anchored_world)
        \<and> stateStore_load mem_deps (tile_id 1) anchored_world =
            (Inr (Some (tile_state 1 [2] None)), anchored_world)
        \<and> new_RunningState mem_deps (tile_state 1 [2] None) True anchored_world = (0, wc)
        \<and> inmemory_set mem_deps (rs_id (deref mem_deps 0 wc)) 0 wc = ((), wd)
        \<and> anchorRequestStore_load mem_deps (tile_id 1) wd =
            (Inr (Some \<lparr> request_cid = 2 \<rparr>), wd)"
    by (simp add: mem_defs wc_def wd_def)
  note stored = loadGenesis_tiers
    [where d = mem_deps and streamId = "tile_id 1" and w = anchored_world
       and wa = anchored_world and s = "tile_state 1 [2] None" and wb = anchored_world
       and r = 0 and wc = wc and wd = wd and req = "Some \<lparr> request_cid = 2 \<rparr>" and we = wd,
     THEN conjunct2, THEN conjunct1, rule_format, OF b]
  define cd where "cd = \<lparr> commit_cid = 3, payload = 0, disableTimecheck = False \<rparr>"
  define wj where "wj = net_world\<lparr>objects :=
      [mem_object (mem_genesis 0 (cd\<lparr>disableTimecheck := True\<rparr>)) False]\<rparr>"
  define wk where "wk = wj\<lparr>cache := [(tile_id 3, 0)]\<rparr>"
  have c: "inmemory_get mem_deps (tile_id 3) net_world = (None, net_world)
        \<and> stateStore_load mem_deps (tile_id 3) net_world = (Inr None, net_world)
        \<and> handlers_get mem_deps (typeName (tile_id 3)) net_world = (Inr 0, net_world)
        \<and> getCommitData mem_deps (cid (tile_id 3)) (tile_id 3) net_world =
            (Inr (Some cd), net_world)
        \<and> handler_applyCommit mem_deps 0 (cd\<lparr>disableTimecheck := True\<rparr>) net_world =
            (Inr (mem_genesis 0 (cd\<lparr>disableTimecheck := True\<rparr>)), net_world)
        \<and> new_RunningState mem_deps (mem_genesis 0 (cd\<lparr>disableTimecheck := True\<rparr>)) False
              net_world = (0, wj)
        \<and> inmemory_set mem_deps (rs_id (deref mem_deps 0 wj)) 0 wj = ((), wk)"
    by (simp add: mem_deps_simps mem_deref_def mem_object_def mem_streamId_def tile_id_def
        empty_world_def net_world_def mem_genesis_def cd_def wj_def wk_def)
  note network = loadGenesis_tiers
    [where d = mem_deps and streamId = "tile_id 3" and w = net_world and wa = net_world
       and wb = net_world and h = 0 and wg = net_world and cd = cd and wh = net_world
       and sn = "mem_genesis 0 (cd\<lparr>disableTimecheck := True\<rparr>)" and wi = net_world
       and rn = 0 and wj = wj and wk = wk,
     THEN conjunct2, THEN conjunct2, rule_format, OF c]
  have ids: "rs_id (deref mem_deps 0 wc) = tile_id 1" "rs_id (deref mem_deps 0 wj) = tile_id 3"
    by (simp_all add: mem_defs wc_def wj_def cd_def)
  have wf: "wasPinnedStreamSynced mem_deps (tile_id 1) wd = False"
    by (simp add: mem_defs wc_def wd_def)
  have as: "anchorService_present mem_deps wd"
    by (simp add: mem_defs wc_def wd_def)
  show ?thesis
    using memory stored network ids wf as
    by (simp add: outcome_def events_def mem_deps_simps cd_def tile_id_sel)
qed

text \<open>
  Claim C1 as the specification words it rehydrates ``any persisted anchor request''.
  On a node without an anchor service the persisted request of stream 1 is loaded, and
  \<^verbatim>\<open>confirmAnchorResponse\<close> is not called.
\<close>

theorem loadGenesis_tiers_counterexample:
  "fst (anchorRequestStore_load mem_deps (tile_id 1) stored_world) =
     Inr (Some \<lparr> request_cid = 2 \<rparr>)
   \<and> outcome (loadGenesis mem_deps (tile_id 1)) stored_world = Inr (0, False)
   \<and> events (loadGenesis mem_deps (tile_id 1)) stored_world =
       [InmemoryGet (tile_id 1) None, StateStoreLoad (tile_id 1),
        MetricsCount CACHE_HIT_LOCAL 1, NewRunningState (tile_state 1 [2] None) True 0,
        InmemorySet (tile_id 1) 0, AnchorRequestStoreLoad (tile_id 1)]"
  by (simp add: outcome_def events_def run_defs mem_defs)

subsection \<open>load\<close>





subsection \<open>Pinning policy\<close>

text \<open>
  Claim C4. For an UPDATE or LOAD operation whose \<open>pin\<close> option is defined (true or false),
  \<^verbatim>\<open>handlePinOpts\<close> emits a warning and does nothing else: no pin, no unpin, no change of
  the collaborators' state. So \<^verbatim>\<open>applyCommit\<close> with a defined \<open>pin\<close> option leaves the
  world as the state manager's \<^verbatim>\<open>applyCommit\<close> and \<^verbatim>\<open>applyWriteOpts\<close> left it: a stream
  pinned then is still pinned.
\<close>

theorem handlePinOpts_warns:
  "(defined (pin opts) \<and> opType \<noteq> CREATE \<longrightarrow>
      handlePinOpts d r opts opType w =
        (Inr (), w,
         [ConsoleWarn (if truthy (pin opts) then ''pin'' else ''unpin'')
            (streamIdFromState d (state (deref d r w)))
            (if opType = UPDATE then ''update'' else ''load'')]))
   \<and> (defined (pin opts) \<and> stateManager_applyCommit d streamId c opts w = (Inr r, wa)
        \<and> stateManager_applyWriteOpts d r opts wa = (Inr (), wb) \<longrightarrow>
      applyCommit d streamId c opts w =
        (Inr r, wb,
         [LoggerVerbose (ApplyCommitToStream streamId),
          StateManagerApplyCommit streamId c opts,
          StateManagerApplyWriteOpts r opts,
          ConsoleWarn (if truthy (pin opts) then ''pin'' else ''unpin'')
            (streamIdFromState d (state (deref d r wb))) ''update'',
          LoggerVerbose (AppliedWriteOpts streamId)]))"
  by (simp add: handlePinOpts_def applyCommit_def applyWriteOpts_def run_simps)

text \<open>
  An update of the pinned, cached stream 1 with \<^verbatim>\<open>{pin: false}\<close>: a warning, and the
  stream is pinned as before.
\<close>

theorem handlePinOpts_warns_witness:
  "handlePinOpts mem_deps 0 (no_opts\<lparr>pin := Value False\<rparr>) UPDATE cached_world =
     (Inr (), cached_world, [ConsoleWarn ''unpin'' (tile_id 1) ''update''])
   \<and> applyCommit mem_deps (tile_id 1) 5 (no_opts\<lparr>pin := Value False\<rparr>) cached_world =
     (Inr 0, cached_world,
      [LoggerVerbose (ApplyCommitToStream (tile_id 1)),
       StateManagerApplyCommit (tile_id 1) 5 (no_opts\<lparr>pin := Value False\<rparr>),
       StateManagerApplyWriteOpts 0 (no_opts\<lparr>pin := Value False\<rparr>),
       ConsoleWarn ''unpin'' (tile_id 1) ''update'',
       LoggerVerbose (AppliedWriteOpts (tile_id 1))])
   \<and> isPinned (deref mem_deps 0 cached_world)"
proof -
  have a: "defined (pin (no_opts\<lparr>pin := Value False\<rparr>)) \<and> UPDATE \<noteq> CREATE"
    by simp
  have b: "defined (pin (no_opts\<lparr>pin := Value False\<rparr>))
      \<and> stateManager_applyCommit mem_deps (tile_id 1) 5 (no_opts\<lparr>pin := Value False\<rparr>)
            cached_world = (Inr 0, cached_world)
      \<and> stateManager_applyWriteOpts mem_deps 0 (no_opts\<lparr>pin := Value False\<rparr>) cached_world =
            (Inr (), cached_world)"
    by (simp add: mem_deps_simps cached_world_def empty_world_def tile_id_def)
  have c: "streamIdFromState mem_deps (state (deref mem_deps 0 cached_world)) = tile_id 1"
    "isPinned (deref mem_deps 0 cached_world)"
    by (simp_all add: mem_defs)
  from handlePinOpts_warns
    [where opts = "no_opts\<lparr>pin := Value False\<rparr>" and opType = UPDATE and d = mem_deps
       and r = 0 and w = cached_world, THEN conjunct1, rule_format, OF a]
    handlePinOpts_warns
    [where opts = "no_opts\<lparr>pin := Value False\<rparr>" and d = mem_deps and streamId = "tile_id 1"
       and c = 5 and w = cached_world and r = 0 and wa = cached_world and wb = cached_world,
     THEN conjunct2, rule_format, OF b]
  show ?thesis
    using c by simp
qed

text \<open>
  Claim C5, as the code has it. For a CREATE operation with \<^verbatim>\<open>opts.pin === false\<close>,
  \<^verbatim>\<open>handlePinOpts\<close> calls \<^verbatim>\<open>unpin(state$)\<close> with no publish option: it raises
  CannotUnpinIndexed, with no effect, when the stream is indexed, and otherwise it marks the
  stream unpinned and removes it from the pin store, without publishing the tip.
\<close>

theorem handlePinOpts_create_unpins:
  "(pin opts = Value False \<and> stream_indexed d r w \<longrightarrow>
      handlePinOpts d r opts CREATE w =
        (Inl (CannotUnpinIndexed (rs_id (deref d r w)) (model (state (deref d r w)))), w, []))
   \<and> (pin opts = Value False \<and> \<not> stream_indexed d r w \<longrightarrow>
      handlePinOpts d r opts CREATE w =
        (let k = rs_id (deref d r w);
             wa = snd (markUnpinned d k w)
         in (settled (fst (pinStore_rm d r wa)), snd (pinStore_rm d r wa),
             [MarkUnpinned k, PinStoreRm r])))"
  by (simp add: handlePinOpts_create_false unpin_apply Let_def)

text \<open>
  A create of the indexed stream 1 with \<^verbatim>\<open>{pin: false}\<close> fails; a create of the pinned,
  not indexed stream 1 with \<^verbatim>\<open>{pin: false}\<close> takes it out of the pin store.
\<close>

theorem handlePinOpts_create_unpins_witness:
  "stream_indexed mem_deps 0 indexed_world
   \<and> handlePinOpts mem_deps 0 (no_opts\<lparr>pin := Value False\<rparr>) CREATE indexed_world =
       (Inl (CannotUnpinIndexed (tile_id 1) (Some (tile_id 9))), indexed_world, [])
   \<and> \<not> stream_indexed mem_deps 0 cached_world
   \<and> events (handlePinOpts mem_deps 0 (no_opts\<lparr>pin := Value False\<rparr>) CREATE) cached_world =
       [MarkUnpinned (tile_id 1), PinStoreRm 0]"
proof -
  have a: "pin (no_opts\<lparr>pin := Value False\<rparr>) = Value False
      \<and> stream_indexed mem_deps 0 indexed_world"
    by (simp add: stream_indexed_def mem_defs)
  have b: "pin (no_opts\<lparr>pin := Value False\<rparr>) = Value False
      \<and> \<not> stream_indexed mem_deps 0 cached_world"
    by (simp add: stream_indexed_def mem_defs)
  have c: "rs_id (deref mem_deps 0 indexed_world) = tile_id 1"
    "model (state (deref mem_deps 0 indexed_world)) = Some (tile_id 9)"
    "rs_id (deref mem_deps 0 cached_world) = tile_id 1"
    by (simp_all add: mem_defs)
  from handlePinOpts_create_unpins
    [where opts = "no_opts\<lparr>pin := Value False\<rparr>" and d = mem_deps and r = 0
       and w = indexed_world, THEN conjunct1, rule_format, OF a]
    handlePinOpts_create_unpins
    [where opts = "no_opts\<lparr>pin := Value False\<rparr>" and d = mem_deps and r = 0
       and w = cached_world, THEN conjunct2, rule_format, OF b]
  show ?thesis
    using a b c by (simp add: events_def Let_def)
qed

text \<open>
  Claim C5 as the specification words it: a no-op, with no removal from the pin store and
  no error possible. The pinned stream 1 is in the pin store before the create with
  \<^verbatim>\<open>{pin: false}\<close> and not after it, and the same call on the indexed stream 1 raises
  CannotUnpinIndexed.
\<close>

theorem handlePinOpts_create_unpins_counterexample:
  "store cached_world = [(tile_id 1, tile_state 1 [] None)]
   \<and> events (handlePinOpts mem_deps 0 (no_opts\<lparr>pin := Value False\<rparr>) CREATE) cached_world =
       [MarkUnpinned (tile_id 1), PinStoreRm 0]
   \<and> store (world_after (handlePinOpts mem_deps 0 (no_opts\<lparr>pin := Value False\<rparr>) CREATE)
        cached_world) = []
   \<and> outcome (handlePinOpts mem_deps 0 (no_opts\<lparr>pin := Value False\<rparr>) CREATE) indexed_world =
       Inl (CannotUnpinIndexed (tile_id 1) (Some (tile_id 9)))"
  by (simp add: events_def world_after_def outcome_def handlePinOpts_def unpin_def
      shouldIndex_apply stream_indexed_def por_apply pand_apply run_simps mem_defs)

text \<open>
  Claim C6. \<^verbatim>\<open>unpin(state$)\<close> raises CannotUnpinIndexed exactly when the stream has a
  model that the indexing API says should be indexed, and then nothing has happened: no
  event, the same world. When the stream is not indexed, the tip is published once if
  \<^verbatim>\<open>opts.publish\<close> is true and not at all otherwise, then the stream is marked unpinned,
  then it is removed from the pin store.
\<close>

theorem unpin_behaviour:
  "((\<exists>k m. outcome (unpin d r opts) w = Inl (CannotUnpinIndexed k m)) = stream_indexed d r w)
   \<and> unpin d r opts w =
     (if stream_indexed d r w
      then (Inl (CannotUnpinIndexed (rs_id (deref d r w)) (model (state (deref d r w)))), w, [])
      else
        (let pub = (case opts of Some po \<Rightarrow> truthy (publish_tip po) | None \<Rightarrow> False);
             wa = (if pub then snd (publishTip d r w) else w);
             k = rs_id (deref d r wa);
             wb = snd (markUnpinned d k wa)
         in (settled (fst (pinStore_rm d r wb)), snd (pinStore_rm d r wb),
             (if pub then [PublishTip r] else []) @ [MarkUnpinned k, PinStoreRm r])))"
  by (simp add: unpin_apply outcome_def Let_def settled_not_indexed)

text \<open>
  Unpinning the indexed stream 1 fails and changes nothing; unpinning the pinned, not
  indexed stream 1 with \<^verbatim>\<open>{publish: true}\<close> publishes the tip once.
\<close>

theorem unpin_behaviour_witness:
  "stream_indexed mem_deps 0 indexed_world
   \<and> unpin mem_deps 0 None indexed_world =
       (Inl (CannotUnpinIndexed (tile_id 1) (Some (tile_id 9))), indexed_world, [])
   \<and> \<not> stream_indexed mem_deps 0 cached_world
   \<and> outcome (unpin mem_deps 0 (Some \<lparr> publish_tip = Value True \<rparr>)) cached_world = Inr ()
   \<and> events (unpin mem_deps 0 (Some \<lparr> publish_tip = Value True \<rparr>)) cached_world =
       [PublishTip 0, MarkUnpinned (tile_id 1), PinStoreRm 0]"
proof -
  have a: "stream_indexed mem_deps 0 indexed_world" "\<not> stream_indexed mem_deps 0 cached_world"
    by (simp_all add: stream_indexed_def mem_defs)
  from unpin_behaviour [of mem_deps 0 None indexed_world, THEN conjunct2]
    unpin_behaviour [of mem_deps 0 "Some \<lparr> publish_tip = Value True \<rparr>" cached_world,
      THEN conjunct2]
  show ?thesis
    using a by (simp add: outcome_def events_def Let_def mem_defs)
qed

subsection \<open>Capability expiration\<close>

text \<open>
  Claim C7. A load with \<^verbatim>\<open>skipCacaoExpirationChecks\<close> set never raises CapabilityExpired.
  \<^verbatim>\<open>loadAtCommit\<close> loads the base stream with that option forced to true, computes the
  snapshot with \<^verbatim>\<open>StateManager.atCommit\<close> and checks the snapshot's state: it raises
  CapabilityExpired exactly when the base load and \<^verbatim>\<open>atCommit\<close> succeed and the snapshot's
  state fails the check.
\<close>

theorem loadAtCommit_expiration:
  "(truthy (skipCacaoExpirationChecks opts) \<longrightarrow>
      outcome (load d sched streamId opts) w \<noteq> Inl CapabilityExpired)
   \<and> (outcome (loadAtCommit d sched commitId opts) w = Inl CapabilityExpired \<longleftrightarrow>
        (\<exists>base wa ta snap wb.
           load d sched (baseID commitId) (opts\<lparr>skipCacaoExpirationChecks := Value True\<rparr>) w
             = (Inr base, wa, ta)
           \<and> stateManager_atCommit d base commitId wa = (Inr snap, wb)
           \<and> cacaoExpired d (snapshot_state snap) wb))"
proof (intro conjI impI)
  assume "truthy (skipCacaoExpirationChecks opts)"
  then show "outcome (load d sched streamId opts) w \<noteq> Inl CapabilityExpired"
    using raises_only_outcomeD [OF load_skip_not_expired, of opts d sched streamId w CapabilityExpired]
    by auto
next
  let ?opts = "opts\<lparr>skipCacaoExpirationChecks := Value True\<rparr>"
  obtain lr wa ta where l: "load d sched (baseID commitId) ?opts w = (lr, wa, ta)"
    by (cases "load d sched (baseID commitId) ?opts w")
  show "outcome (loadAtCommit d sched commitId opts) w = Inl CapabilityExpired \<longleftrightarrow>
        (\<exists>base wa ta snap wb.
           load d sched (baseID commitId) ?opts w = (Inr base, wa, ta)
           \<and> stateManager_atCommit d base commitId wa = (Inr snap, wb)
           \<and> cacaoExpired d (snapshot_state snap) wb)"
  proof (cases lr)
    case (Inl e)
    have "e \<noteq> CapabilityExpired"
      using raises_onlyD [OF load_skip_not_expired, of ?opts d sched "baseID commitId" w e wa ta]
        l Inl by simp
    then show ?thesis
      using l Inl by (simp add: loadAtCommit_def Let_def outcome_def bind_apply)
  next
    case (Inr base)
    obtain ar wb where a: "stateManager_atCommit d base commitId wa = (ar, wb)"
      by (cases "stateManager_atCommit d base commitId wa")
    show ?thesis
      using l Inr a
      by (cases ar)
         (simp_all add: loadAtCommit_def Let_def outcome_def checkForCacaoExpiration_def
            run_simps)
  qed
qed

text \<open>
  The cached stream 1 carries an expired capability: the load that skips the check succeeds,
  and \<^verbatim>\<open>loadAtCommit\<close> at its genesis commit raises CapabilityExpired.
\<close>

theorem loadAtCommit_expiration_witness:
  "outcome (load mem_deps [] (tile_id 1) (no_opts\<lparr>skipCacaoExpirationChecks := Value True\<rparr>))
      expired_world = Inr 0
   \<and> outcome (load mem_deps [] (tile_id 1) (no_opts\<lparr>skipCacaoExpirationChecks := Value True\<rparr>))
      expired_world \<noteq> Inl CapabilityExpired
   \<and> outcome (loadAtCommit mem_deps [] \<lparr> baseID = tile_id 1, commit = 1 \<rparr> no_opts) expired_world =
       Inl CapabilityExpired"
proof -
  let ?c = "\<lparr> baseID = tile_id 1, commit = 1 \<rparr>"
  let ?wa = "expired_world\<lparr>syncedStreams := [tile_id 1]\<rparr>"
  have sk: "truthy (skipCacaoExpirationChecks (no_opts\<lparr>skipCacaoExpirationChecks := Value True\<rparr>))"
    by simp
  have at: "stateManager_atCommit mem_deps 0 ?c ?wa =
      (Inr (SnapshotState (tile_state 1 [] None)), ?wa)"
    by (simp add: mem_defs)
  have ex: "cacaoExpired mem_deps (snapshot_state (SnapshotState (tile_state 1 [] None))) ?wa"
    by (simp add: mem_defs)
  have "\<exists>base wa ta snap wb.
      load mem_deps [] (baseID ?c) (no_opts\<lparr>skipCacaoExpirationChecks := Value True\<rparr>)
        expired_world = (Inr base, wa, ta)
      \<and> stateManager_atCommit mem_deps base ?c wa = (Inr snap, wb)
      \<and> cacaoExpired mem_deps (snapshot_state snap) wb"
  proof (intro exI conjI)
    show "load mem_deps [] (baseID ?c) (no_opts\<lparr>skipCacaoExpirationChecks := Value True\<rparr>)
        expired_world =
        (Inr 0, ?wa,
         [InmemoryGet (tile_id 1) (Some 0), MetricsCount CACHE_HIT_MEMORY 1,
          MarkPinnedAndSynced (tile_id 1)])"
      using run_load_expired by simp
    show "stateManager_atCommit mem_deps 0 ?c ?wa =
        (Inr (SnapshotState (tile_state 1 [] None)), ?wa)"
      by (rule at)
    show "cacaoExpired mem_deps (snapshot_state (SnapshotState (tile_state 1 [] None))) ?wa"
      by (rule ex)
  qed
  with loadAtCommit_expiration
    [where opts = "no_opts\<lparr>skipCacaoExpirationChecks := Value True\<rparr>" and d = mem_deps
       and sched = "[]" and streamId = "tile_id 1" and w = expired_world, THEN conjunct1]
    loadAtCommit_expiration
    [where opts = no_opts and d = mem_deps and sched = "[]" and w = expired_world
       and commitId = ?c, THEN conjunct2]
  show ?thesis
    using sk run_load_expired by (simp add: outcome_def)
qed

subsection \<open>Creating a stream\<close>

text \<open>
  Claim C8. \<^verbatim>\<open>applyCreateOpts\<close> loads the stream and applies the write options with the
  operation type CREATE if the log of the loaded state has length 1 and LOAD otherwise.
  With no \<open>pin\<close> option and a log of length 1 the stream is given to the pin store, so
  that, the pin store marking what it accepts as pinned, the returned state is pinned.
\<close>

theorem applyCreateOpts_classifies:
  assumes "load d sched streamId opts w = (Inr r, wa, ta)"
  shows "applyCreateOpts d sched streamId opts w =
           (case applyWriteOpts d r opts
                   (if length (log (state (deref d r wa))) = 1 then CREATE else LOAD) wa of
              (res, wb, tb) \<Rightarrow> (map_sum id (\<lambda>_. r) res, wb, ta @ tb))
         \<and> (pinStore_marks_pinned d \<and> \<not> defined (pin opts)
              \<and> length (log (state (deref d r wa))) = 1
              \<and> applyCreateOpts d sched streamId opts w = (Inr r', w', t') \<longrightarrow>
            r' = r \<and> isPinned (deref d r w') \<and> PinStoreAdd r None \<in> set t')"
proof (rule conjI)
  show eq: "applyCreateOpts d sched streamId opts w =
           (case applyWriteOpts d r opts
                   (if length (log (state (deref d r wa))) = 1 then CREATE else LOAD) wa of
              (res, wb, tb) \<Rightarrow> (map_sum id (\<lambda>_. r) res, wb, ta @ tb))"
    using assms
    by (simp add: applyCreateOpts_def bind_apply peek_apply return_apply
        split: prod.splits sum.splits)
  show "pinStore_marks_pinned d \<and> \<not> defined (pin opts)
              \<and> length (log (state (deref d r wa))) = 1
              \<and> applyCreateOpts d sched streamId opts w = (Inr r', w', t') \<longrightarrow>
            r' = r \<and> isPinned (deref d r w') \<and> PinStoreAdd r None \<in> set t'"
  proof (rule impI)
    assume h: "pinStore_marks_pinned d \<and> \<not> defined (pin opts)
              \<and> length (log (state (deref d r wa))) = 1
              \<and> applyCreateOpts d sched streamId opts w = (Inr r', w', t')"
    obtain sr wb where sm: "stateManager_applyWriteOpts d r opts wa = (sr, wb)"
      by (cases "stateManager_applyWriteOpts d r opts wa")
    have hp: "handlePinOpts d r opts CREATE wb =
        (settled (fst (pinStore_add d r None wb)), snd (pinStore_add d r None wb),
         [PinStoreAdd r None])"
      using h
      by (simp add: handlePinOpts_def por_apply pand_apply pin_stream_def run_simps
          shouldIndex_apply)
    obtain pr wc where pa: "pinStore_add d r None wb = (pr, wc)"
      by (cases "pinStore_add d r None wb")
    have "sr = Inr () \<and> pr = Inr () \<and> r' = r \<and> w' = wc
        \<and> t' = ta @ [StateManagerApplyWriteOpts r opts, PinStoreAdd r None]"
      using h eq sm hp pa
      by (cases sr; cases pr) (simp_all add: applyWriteOpts_def bind_apply await_apply)
    then show "r' = r \<and> isPinned (deref d r w') \<and> PinStoreAdd r None \<in> set t'"
      using h pa by (simp add: pinStore_marks_pinned_def)
  qed
qed

text \<open>
  Creating stream 3, known to the network only, with no options: the loaded log has one
  entry and the stream ends up pinned.
\<close>

theorem applyCreateOpts_classifies_witness:
  "pinStore_marks_pinned mem_deps
   \<and> outcome (load mem_deps [] (tile_id 3) no_opts) net_world = Inr 0
   \<and> outcome (applyCreateOpts mem_deps [] (tile_id 3) no_opts) net_world = Inr 0
   \<and> isPinned (deref mem_deps 0
        (world_after (applyCreateOpts mem_deps [] (tile_id 3) no_opts) net_world))"
proof -
  let ?l = "load mem_deps [] (tile_id 3) no_opts"
  let ?a = "applyCreateOpts mem_deps [] (tile_id 3) no_opts"
  have a: "?l net_world = (Inr 0, world_after ?l net_world, events ?l net_world)"
    using run_eq [of ?l net_world] run_load_net by simp
  have b: "?a net_world = (Inr 0, world_after ?a net_world, events ?a net_world)"
    using run_eq [of ?a net_world] run_applyCreateOpts_net by simp
  have h: "pinStore_marks_pinned mem_deps \<and> \<not> defined (pin no_opts)
      \<and> length (log (state (deref mem_deps 0 (world_after ?l net_world)))) = 1
      \<and> ?a net_world = (Inr 0, world_after ?a net_world, events ?a net_world)"
    using mem_deps_marks_pinned run_load_net b by (simp add: no_opts_def)
  from applyCreateOpts_classifies [OF a, THEN conjunct2, rule_format, OF h]
  show ?thesis
    using mem_deps_marks_pinned run_load_net run_applyCreateOpts_net by simp
qed

subsection \<open>Defaults of load\<close>

text \<open>
  Claim C9. A load whose options omit the property \<open>sync\<close> behaves exactly as one with
  \<open>sync = PREFER_CACHE\<close>, and a load whose options omit \<open>syncTimeoutSeconds\<close> behaves
  exactly as one with \<open>syncTimeoutSeconds = 3\<close>. Every property present in the options
  overrides the default, also one whose value is \<^verbatim>\<open>undefined\<close>: with \<open>sync\<close> present and
  undefined load throws the invalid-sync-option error before any call; with
  \<open>sync = NEVER_SYNC\<close> it never calls \<^verbatim>\<open>StateManager.sync\<close>; with \<open>sync\<close> omitted,
  \<open>PREFER_CACHE\<close> or \<open>SYNC_ON_ERROR\<close> and a state not yet synced, and with
  \<open>sync = SYNC_ALWAYS\<close>, its one call of \<^verbatim>\<open>StateManager.sync\<close> gets the timeout
  \<open>syncTimeoutSeconds * 1000\<close> of the caller when the property has a value, 3000 when it is
  omitted, and \<^verbatim>\<open>NaN\<close> when it is present and undefined.
\<close>

theorem load_defaults:
  "(sync opts = Absent \<longrightarrow>
      load d sched streamId opts = load d sched streamId (opts\<lparr>sync := Value PREFER_CACHE\<rparr>))
   \<and> (syncTimeoutSeconds opts = Absent \<longrightarrow>
      load d sched streamId opts = load d sched streamId (opts\<lparr>syncTimeoutSeconds := Value 3\<rparr>))
   \<and> (sync opts = Undefined \<longrightarrow>
      load d sched streamId opts w = (Inl InvalidSyncOption, w, []))
   \<and> (sync opts = Value NEVER_SYNC \<longrightarrow>
      filter is_Sync (events (load d sched streamId opts) w) = [])
   \<and> ((sync opts = Absent \<or> sync opts = Value PREFER_CACHE \<or> sync opts = Value SYNC_ON_ERROR)
        \<and> loadGenesis d streamId w = (Inr (r, False), wa, ta) \<longrightarrow>
      filter is_Sync (events (load d sched streamId opts) w) =
        [Sync r (case syncTimeoutSeconds opts of
                   Absent \<Rightarrow> Num 3000 | Undefined \<Rightarrow> NaN | Value n \<Rightarrow> Num (n * 1000)) None])
   \<and> (sync opts = Value SYNC_ALWAYS
        \<and> promise_all d sched streamId w = (Inr (net, loc), wb, tb) \<longrightarrow>
      filter is_Sync (events (load d sched streamId opts) w) =
        [Sync net (case syncTimeoutSeconds opts of
                     Absent \<Rightarrow> Num 3000 | Undefined \<Rightarrow> NaN | Value n \<Rightarrow> Num (n * 1000))
           (map_option (\<lambda>l. tip (deref d l wb)) loc)])"
proof -
  let ?T = "case syncTimeoutSeconds opts of
              Absent \<Rightarrow> Num 3000 | Undefined \<Rightarrow> NaN | Value n \<Rightarrow> Num (n * 1000)"
  have c1: "sync opts = Absent \<longrightarrow>
      load d sched streamId opts = load d sched streamId (opts\<lparr>sync := Value PREFER_CACHE\<rparr>)"
    using spread_absent_sync [of opts] by (simp add: load_def)
  have c2: "syncTimeoutSeconds opts = Absent \<longrightarrow>
      load d sched streamId opts = load d sched streamId (opts\<lparr>syncTimeoutSeconds := Value 3\<rparr>)"
    using spread_absent_timeout [of opts] by (simp add: load_def)
  have c3: "sync opts = Undefined \<longrightarrow>
      load d sched streamId opts w = (Inl InvalidSyncOption, w, [])"
    by (simp add: load_def Let_def spread_defaults_fields bind_apply throw_apply)
  have c4: "sync opts = Value NEVER_SYNC \<longrightarrow>
      filter is_Sync (events (load d sched streamId opts) w) = []"
  proof (rule impI)
    assume "sync opts = Value NEVER_SYNC"
    then have "sync (spread DEFAULT_LOAD_OPTS opts) = Value NEVER_SYNC"
      by (simp add: spread_defaults_fields)
    then show "filter is_Sync (events (load d sched streamId opts) w) = []"
      by (rule load_never_sync)
  qed
  have c5: "(sync opts = Absent \<or> sync opts = Value PREFER_CACHE \<or> sync opts = Value SYNC_ON_ERROR)
        \<and> loadGenesis d streamId w = (Inr (r, False), wa, ta) \<longrightarrow>
      filter is_Sync (events (load d sched streamId opts) w) = [Sync r ?T None]"
  proof (rule impI)
    assume a: "(sync opts = Absent \<or> sync opts = Value PREFER_CACHE
        \<or> sync opts = Value SYNC_ON_ERROR)
        \<and> loadGenesis d streamId w = (Inr (r, False), wa, ta)"
    then have s: "sync (spread DEFAULT_LOAD_OPTS opts) = Value PREFER_CACHE
        \<or> sync (spread DEFAULT_LOAD_OPTS opts) = Value SYNC_ON_ERROR"
      by (auto simp: spread_defaults_fields)
    from a have g: "loadGenesis d streamId w = (Inr (r, False), wa, ta)"
      by simp
    from load_cache_sync [OF s g, of sched]
    show "filter is_Sync (events (load d sched streamId opts) w) = [Sync r ?T None]"
      by (simp add: timeoutMs_merged)
  qed
  have c6: "sync opts = Value SYNC_ALWAYS
        \<and> promise_all d sched streamId w = (Inr (net, loc), wb, tb) \<longrightarrow>
      filter is_Sync (events (load d sched streamId opts) w) =
        [Sync net ?T (map_option (\<lambda>l. tip (deref d l wb)) loc)]"
  proof (rule impI)
    assume a: "sync opts = Value SYNC_ALWAYS
        \<and> promise_all d sched streamId w = (Inr (net, loc), wb, tb)"
    then have s: "sync (spread DEFAULT_LOAD_OPTS opts) = Value SYNC_ALWAYS"
      by (simp add: spread_defaults_fields)
    from a have p: "promise_all d sched streamId w = (Inr (net, loc), wb, tb)"
      by simp
    from load_always_sync [OF s p, THEN conjunct1] obtain rest where
      e: "events (load d sched streamId opts) w =
            tb @ Sync net (timeoutMs (syncTimeoutSeconds (spread DEFAULT_LOAD_OPTS opts)))
                   (map_option (\<lambda>l. tip (deref d l wb)) loc) # rest"
      and f: "filter is_Sync (tb @ rest) = []"
      by auto
    from e f show "filter is_Sync (events (load d sched streamId opts) w) =
        [Sync net ?T (map_option (\<lambda>l. tip (deref d l wb)) loc)]"
      by (simp add: timeoutMs_merged)
  qed
  from c1 c2 c3 c4 c5 c6 show ?thesis
    by (intro conjI)
qed

text \<open>
  On a node whose state store holds stream 1, not yet synced: a load with no options at all
  is the load with \<open>PREFER_CACHE\<close> and the load with a timeout of 3 seconds, and it syncs
  with 3000 ms; the options \<^verbatim>\<open>{sync: NEVER_SYNC}\<close> suppress the sync;
  \<^verbatim>\<open>{syncTimeoutSeconds: 7}\<close> syncs with 7000 ms; \<^verbatim>\<open>{sync: undefined}\<close> throws.
\<close>

theorem load_defaults_witness:
  "load mem_deps [] (tile_id 1) no_opts =
     load mem_deps [] (tile_id 1) (no_opts\<lparr>sync := Value PREFER_CACHE\<rparr>)
   \<and> load mem_deps [] (tile_id 1) no_opts =
     load mem_deps [] (tile_id 1) (no_opts\<lparr>syncTimeoutSeconds := Value 3\<rparr>)
   \<and> load mem_deps [] (tile_id 1) (no_opts\<lparr>sync := Undefined\<rparr>) anchored_world =
     (Inl InvalidSyncOption, anchored_world, [])
   \<and> filter is_Sync
        (events (load mem_deps [] (tile_id 1) (no_opts\<lparr>sync := Value NEVER_SYNC\<rparr>))
           anchored_world) = []
   \<and> outcome (loadGenesis mem_deps (tile_id 1)) anchored_world = Inr (0, False)
   \<and> filter is_Sync (events (load mem_deps [] (tile_id 1) no_opts) anchored_world) =
       [Sync 0 (Num 3000) None]
   \<and> filter is_Sync
        (events (load mem_deps [] (tile_id 1) (no_opts\<lparr>syncTimeoutSeconds := Value 7\<rparr>))
           anchored_world) = [Sync 0 (Num 7000) None]
   \<and> outcome (promise_all mem_deps [] (tile_id 1)) both_world = Inr (0, Some 1)
   \<and> filter is_Sync
        (events (load mem_deps [] (tile_id 1)
                   (no_opts\<lparr>sync := Value SYNC_ALWAYS, syncTimeoutSeconds := Value 7\<rparr>))
           both_world) = [Sync 0 (Num 7000) (Some 2)]"
proof -
  let ?g = "loadGenesis mem_deps (tile_id 1)"
  let ?q = "promise_all mem_deps [] (tile_id 1)"
  let ?seven = "no_opts\<lparr>syncTimeoutSeconds := Value 7\<rparr>"
  let ?always = "no_opts\<lparr>sync := Value SYNC_ALWAYS, syncTimeoutSeconds := Value 7\<rparr>"
  have a: "sync no_opts = Absent" "syncTimeoutSeconds no_opts = Absent"
    by (simp_all add: no_opts_def)
  have g: "?g anchored_world =
      (Inr (0, False), world_after ?g anchored_world, events ?g anchored_world)"
    using run_eq [of ?g anchored_world] run_loadGenesis_anchored by simp
  have q: "?q both_world = (Inr (0, Some 1), world_after ?q both_world, events ?q both_world)"
    using run_eq [of ?q both_world] run_promise_all_net_first by simp
  note absent = load_defaults [of no_opts mem_deps "[]" "tile_id 1"]
  show ?thesis
  proof (intro conjI)
    show "load mem_deps [] (tile_id 1) no_opts =
        load mem_deps [] (tile_id 1) (no_opts\<lparr>sync := Value PREFER_CACHE\<rparr>)"
      using absent [THEN conjunct1] a(1) by simp
    show "load mem_deps [] (tile_id 1) no_opts =
        load mem_deps [] (tile_id 1) (no_opts\<lparr>syncTimeoutSeconds := Value 3\<rparr>)"
      using absent [THEN conjunct2, THEN conjunct1] a(2) by simp
    show "load mem_deps [] (tile_id 1) (no_opts\<lparr>sync := Undefined\<rparr>) anchored_world =
        (Inl InvalidSyncOption, anchored_world, [])"
      using load_defaults [where opts = "no_opts\<lparr>sync := Undefined\<rparr>" and d = mem_deps
          and sched = "[]" and streamId = "tile_id 1" and w = anchored_world,
          THEN conjunct2, THEN conjunct2, THEN conjunct1]
      by simp
    show "filter is_Sync
        (events (load mem_deps [] (tile_id 1) (no_opts\<lparr>sync := Value NEVER_SYNC\<rparr>))
           anchored_world) = []"
      using load_defaults [where opts = "no_opts\<lparr>sync := Value NEVER_SYNC\<rparr>" and d = mem_deps
          and sched = "[]" and streamId = "tile_id 1" and w = anchored_world,
          THEN conjunct2, THEN conjunct2, THEN conjunct2, THEN conjunct1]
      by simp
    show "outcome ?g anchored_world = Inr (0, False)"
      by (rule run_loadGenesis_anchored)
    show "filter is_Sync (events (load mem_deps [] (tile_id 1) no_opts) anchored_world) =
        [Sync 0 (Num 3000) None]"
      using load_defaults [where opts = no_opts and d = mem_deps
          and sched = "[]" and streamId = "tile_id 1" and w = anchored_world and r = 0
          and wa = "world_after ?g anchored_world" and ta = "events ?g anchored_world",
          THEN conjunct2, THEN conjunct2, THEN conjunct2, THEN conjunct2, THEN conjunct1]
        a g
      by simp
    show "filter is_Sync (events (load mem_deps [] (tile_id 1) ?seven) anchored_world) =
        [Sync 0 (Num 7000) None]"
      using load_defaults [where opts = ?seven and d = mem_deps
          and sched = "[]" and streamId = "tile_id 1" and w = anchored_world and r = 0
          and wa = "world_after ?g anchored_world" and ta = "events ?g anchored_world",
          THEN conjunct2, THEN conjunct2, THEN conjunct2, THEN conjunct2, THEN conjunct1]
        a g
      by simp
    show "outcome ?q both_world = Inr (0, Some 1)"
      using run_promise_all_net_first by simp
    show "filter is_Sync (events (load mem_deps [] (tile_id 1) ?always) both_world) =
        [Sync 0 (Num 7000) (Some 2)]"
      using load_defaults [where opts = ?always and d = mem_deps
          and sched = "[]" and streamId = "tile_id 1" and w = both_world and net = 0
          and loc = "Some 1" and wb = "world_after ?q both_world"
          and tb = "events ?q both_world",
          THEN conjunct2, THEN conjunct2, THEN conjunct2, THEN conjunct2, THEN conjunct2]
        q run_promise_all_net_first
      by simp
  qed
qed

text \<open>
  A property that is present with the value \<^verbatim>\<open>undefined\<close> does not get the default. On the
  same node, the options \<^verbatim>\<open>{sync: undefined}\<close> make load throw where \<open>PREFER_CACHE\<close> returns
  the state, and \<^verbatim>\<open>{syncTimeoutSeconds: undefined}\<close> make it sync with the timeout \<^verbatim>\<open>NaN\<close>
  where 3 seconds give 3000 ms.
\<close>

theorem load_defaults_counterexample:
  "outcome (load mem_deps [] (tile_id 1) (no_opts\<lparr>sync := Undefined\<rparr>)) anchored_world =
     Inl InvalidSyncOption
   \<and> outcome (load mem_deps [] (tile_id 1) (no_opts\<lparr>sync := Value PREFER_CACHE\<rparr>))
       anchored_world = Inr 0
   \<and> filter is_Sync
        (events (load mem_deps [] (tile_id 1) (no_opts\<lparr>syncTimeoutSeconds := Undefined\<rparr>))
           anchored_world) = [Sync 0 NaN None]
   \<and> filter is_Sync
        (events (load mem_deps [] (tile_id 1) (no_opts\<lparr>syncTimeoutSeconds := Value 3\<rparr>))
           anchored_world) = [Sync 0 (Num 3000) None]"
  by (simp add: outcome_def events_def load_defs run_defs mem_defs no_opts_def
      anchored_world_def stored_world_def empty_world_def)

subsection \<open>Reading a stream state\<close>

text \<open>
  Claim C10. \<^verbatim>\<open>streamState\<close> asks the memory cache and returns the cached RunningState's
  state on a hit; on a miss it returns what the pin store's state store has (or its
  rejection). It makes no other call: it creates no RunningState, adds nothing to the
  cache and does not reach the network. \<^verbatim>\<open>fromMemoryOrStore\<close>, on a state-store hit,
  creates a RunningState and adds it to the cache.
\<close>

theorem streamState_read_only:
  "streamState d streamId w =
     (case inmemory_get d streamId w of
        (Some r, wa) \<Rightarrow> (Inr (Some (state (deref d r wa))), wa, [InmemoryGet streamId (Some r)])
      | (None, wa) \<Rightarrow>
          (settled (fst (stateStore_load d streamId wa)), snd (stateStore_load d streamId wa),
           [InmemoryGet streamId None, StateStoreLoad streamId]))
   \<and> filter creates_or_fetches (events (streamState d streamId) w) = []
   \<and> (inmemory_get d streamId w = (None, wa)
        \<and> stateStore_load d streamId wa = (Inr (Some s), wb) \<longrightarrow>
      NewRunningState s True (fst (new_RunningState d s True wb))
        \<in> set (events (fromMemoryOrStore d streamId) w)
      \<and> InmemorySet
          (rs_id (deref d (fst (new_RunningState d s True wb)) (snd (new_RunningState d s True wb))))
          (fst (new_RunningState d s True wb))
        \<in> set (events (fromMemoryOrStore d streamId) w))"
proof (intro conjI impI)
  show eq: "streamState d streamId w =
     (case inmemory_get d streamId w of
        (Some r, wa) \<Rightarrow> (Inr (Some (state (deref d r wa))), wa, [InmemoryGet streamId (Some r)])
      | (None, wa) \<Rightarrow>
          (settled (fst (stateStore_load d streamId wa)), snd (stateStore_load d streamId wa),
           [InmemoryGet streamId None, StateStoreLoad streamId]))"
    by (simp add: streamState_def run_simps split: prod.splits option.splits)
  show "filter creates_or_fetches (events (streamState d streamId) w) = []"
    by (simp add: eq events_def split: prod.splits option.splits)
next
  assume a: "inmemory_get d streamId w = (None, wa)
        \<and> stateStore_load d streamId wa = (Inr (Some s), wb)"
  let ?r = "fst (new_RunningState d s True wb)"
  let ?wc = "snd (new_RunningState d s True wb)"
  have "\<exists>rest. events (fromMemoryOrStore d streamId) w =
      [InmemoryGet streamId None, StateStoreLoad streamId, MetricsCount CACHE_HIT_LOCAL 1,
       NewRunningState s True ?r, InmemorySet (rs_id (deref d ?r ?wc)) ?r] @ rest"
    using a
    by (simp add: events_def fromMemoryOrStore_def fromStreamStateStore_def fromMemory_apply
        bind_apply return_apply emit_apply await_apply add_apply RunningState_new_apply
        split: prod.splits sum.splits)
  then obtain rest where e: "events (fromMemoryOrStore d streamId) w =
      [InmemoryGet streamId None, StateStoreLoad streamId, MetricsCount CACHE_HIT_LOCAL 1,
       NewRunningState s True ?r, InmemorySet (rs_id (deref d ?r ?wc)) ?r] @ rest"
    by (rule exE)
  from e show "NewRunningState s True ?r \<in> set (events (fromMemoryOrStore d streamId) w)"
    by simp
  from e show "InmemorySet (rs_id (deref d ?r ?wc)) ?r
      \<in> set (events (fromMemoryOrStore d streamId) w)"
    by simp
qed

text \<open>
  Stream 1 is in the state store only: \<^verbatim>\<open>streamState\<close> reads it and leaves the world as it
  was, where \<^verbatim>\<open>fromMemoryOrStore\<close> creates object 0 and caches it.
\<close>

theorem streamState_read_only_witness:
  "streamState mem_deps (tile_id 1) stored_world =
     (Inr (Some (tile_state 1 [2] None)), stored_world,
      [InmemoryGet (tile_id 1) None, StateStoreLoad (tile_id 1)])
   \<and> NewRunningState (tile_state 1 [2] None) True 0
        \<in> set (events (fromMemoryOrStore mem_deps (tile_id 1)) stored_world)
   \<and> InmemorySet (tile_id 1) 0
        \<in> set (events (fromMemoryOrStore mem_deps (tile_id 1)) stored_world)"
proof -
  have a: "inmemory_get mem_deps (tile_id 1) stored_world = (None, stored_world)
      \<and> stateStore_load mem_deps (tile_id 1) stored_world =
          (Inr (Some (tile_state 1 [2] None)), stored_world)"
    by (simp add: mem_defs)
  have b: "fst (new_RunningState mem_deps (tile_state 1 [2] None) True stored_world) = 0"
    "rs_id (deref mem_deps 0
        (snd (new_RunningState mem_deps (tile_state 1 [2] None) True stored_world))) = tile_id 1"
    by (simp_all add: mem_defs)
  from streamState_read_only [of mem_deps "tile_id 1" stored_world, THEN conjunct1]
    streamState_read_only
    [where d = mem_deps and streamId = "tile_id 1" and w = stored_world and wa = stored_world
       and s = "tile_state 1 [2] None" and wb = stored_world,
     THEN conjunct2, THEN conjunct2, rule_format, OF a]
  show ?thesis
    using a b by simp
qed

end
